theory Spec2Isabelle
  imports Complex_Main
begin

section \<open>Numbers\<close>

text \<open>
  A TypeScript \<open>number\<close> read from the game (troop counts, troop capacities, the
  controller's ratios) is given to the model as a rational. Division is the one
  operation of \<open>BotBehavior.ts\<close> that leaves the finite numbers on such inputs:
  dividing by zero gives \<open>Infinity\<close>, \<open>-Infinity\<close> or \<open>NaN\<close> and raises nothing. Its
  result type therefore carries the three special values, with the comparisons of
  JavaScript on them (every comparison with \<open>NaN\<close> is false). The quotients of
  \<open>hasSufficientTroops\<close> and \<open>selectEnemy\<close> are only compared, and are kept exact.
  Zero is the positive zero.
\<close>

datatype number = Num rat | Infinity | NegInfinity | NaN

definition divide_number :: "rat \<Rightarrow> rat \<Rightarrow> number" where
  "divide_number a b =
     (if b = 0 then (if a = 0 then NaN else if 0 < a then Infinity else NegInfinity)
      else Num (a / b))"

fun less_number :: "number \<Rightarrow> number \<Rightarrow> bool" where
  "less_number NaN _ = False"
| "less_number _ NaN = False"
| "less_number _ NegInfinity = False"
| "less_number NegInfinity _ = True"
| "less_number Infinity _ = False"
| "less_number (Num a) Infinity = True"
| "less_number (Num a) (Num b) = (a < b)"

fun greater_eq_number :: "number \<Rightarrow> number \<Rightarrow> bool" where
  "greater_eq_number NaN _ = False"
| "greater_eq_number _ NaN = False"
| "greater_eq_number a b = (\<not> less_number a b)"

text \<open>
  \<open>sendAttack\<close> hands on the number it computes and compares it with 1, so its
  arithmetic is that of binary64. \<open>round64\<close> rounds a rational to the nearest double:
  53 significant bits, ties to the even significand, the fixed spacing \<open>2 ^ - 1074\<close>
  of the subnormals below \<open>2 ^ - 1022\<close>, and \<open>\<plusminus>Infinity\<close> once the rounded magnitude
  reaches \<open>2 ^ 1024\<close>. A double is rounded to itself, so a rational that
  \<open>sendAttack\<close> reads stands for the double nearest to it (what the literal \<open>0.55\<close>
  denotes is \<open>round64 (55 / 100)\<close>). \<open>mul_number\<close> and \<open>sub_number\<close> are \<open>*\<close> and
  \<open>-\<close>: the exact result rounded, with the rules of IEEE 754 for the special
  values. No result of \<open>sendAttack\<close> depends on the sign of a zero.
\<close>

definition pow2 :: "int \<Rightarrow> rat" where
  "pow2 e = (if 0 \<le> e then 2 ^ nat e else 1 / 2 ^ nat (- e))"

text \<open>The number of binary digits of a positive integer.\<close>

function bitLength :: "int \<Rightarrow> int" where
  "bitLength n = (if n \<le> 0 then 0 else 1 + bitLength (n div 2))"
  by pat_completeness auto
termination
  by (relation "measure nat") auto

declare bitLength.simps [simp del]

text \<open>For \<open>0 < x\<close>, the exponent \<open>k\<close> with \<open>2 ^ k \<le> x < 2 ^ (k + 1)\<close>.\<close>

definition floorLog2 :: "rat \<Rightarrow> int" where
  "floorLog2 x =
     (if 1 \<le> x then bitLength \<lfloor>x\<rfloor> - 1 else - bitLength (\<lceil>1 / x\<rceil> - 1))"

definition roundHalfEven :: "rat \<Rightarrow> int" where
  "roundHalfEven y =
     (let n = \<lfloor>y\<rfloor>; r = y - of_int n
      in if r < 1 / 2 then n else if 1 / 2 < r then n + 1 else if even n then n else n + 1)"

definition round64 :: "rat \<Rightarrow> number" where
  "round64 x =
     (if x = 0 then Num 0
      else
        let a = \<bar>x\<bar>;
            e = max (floorLog2 a) (- 1022);
            q = pow2 (e - 52);
            m = of_int (roundHalfEven (a / q)) * q
        in if pow2 1024 \<le> m then (if 0 < x then Infinity else NegInfinity)
           else Num (if 0 < x then m else - m))"

fun mul_number :: "number \<Rightarrow> number \<Rightarrow> number" where
  "mul_number NaN _ = NaN"
| "mul_number _ NaN = NaN"
| "mul_number (Num a) (Num b) = round64 (a * b)"
| "mul_number (Num a) Infinity = (if a = 0 then NaN else if 0 < a then Infinity else NegInfinity)"
| "mul_number (Num a) NegInfinity = (if a = 0 then NaN else if 0 < a then NegInfinity else Infinity)"
| "mul_number Infinity (Num b) = (if b = 0 then NaN else if 0 < b then Infinity else NegInfinity)"
| "mul_number NegInfinity (Num b) = (if b = 0 then NaN else if 0 < b then NegInfinity else Infinity)"
| "mul_number Infinity Infinity = Infinity"
| "mul_number Infinity NegInfinity = NegInfinity"
| "mul_number NegInfinity Infinity = NegInfinity"
| "mul_number NegInfinity NegInfinity = Infinity"

fun sub_number :: "number \<Rightarrow> number \<Rightarrow> number" where
  "sub_number NaN _ = NaN"
| "sub_number _ NaN = NaN"
| "sub_number (Num a) (Num b) = round64 (a - b)"
| "sub_number (Num a) Infinity = NegInfinity"
| "sub_number (Num a) NegInfinity = Infinity"
| "sub_number Infinity Infinity = NaN"
| "sub_number Infinity _ = Infinity"
| "sub_number NegInfinity NegInfinity = NaN"
| "sub_number NegInfinity _ = NegInfinity"

section \<open>The game as the controller reads it\<close>

type_synonym PlayerID = string
type_synonym Tick = int

datatype PlayerType = Bot | Human | FakeHuman

text \<open>
  \<open>Relation\<close> is a numeric enum declared in \<open>Game.ts\<close>; the controller compares its
  members with \<open><\<close> and \<open>===\<close>. The values of the three members it names are
  parameters of the model.
\<close>

type_synonym Relation = int

record RelationEnum =
  Hostile :: Relation
  Neutral :: Relation
  Friendly :: Relation

text \<open>
  What the controller reads of another player: \<open>playerID\<close> is \<open>id()\<close> and
  \<open>playerType\<close> is \<open>type()\<close>. \<open>troops()\<close> is a \<open>number\<close>, so any rational is
  admitted; \<open>numTilesOwned()\<close> is a count. \<open>alliances\<close> lists the other party of
  each alliance the player holds; only its length is read.
\<close>

record Player =
  playerID :: PlayerID
  playerType :: PlayerType
  troops :: rat
  numTilesOwned :: nat
  isTraitor :: bool
  alliances :: "PlayerID list"

text \<open>An entry of \<open>neighbors()\<close>: \<open>isPlayer()\<close> holds of the first case only.\<close>

datatype Neighbor = IsPlayer Player | TerraNullius

text \<open>An incoming attack: \<open>attackTroops\<close> is its \<open>troops()\<close>.\<close>

record Attack =
  attackTroops :: rat
  attacker :: Player

text \<open>
  The controlled player \<open>this.player\<close>: a player together with the queries the
  controller makes on it alone.
\<close>

record Owner = Player +
  neighbors :: "Neighbor list"
  incomingAttacks :: "Attack list"
  allRelationsSorted :: "(Player \<times> Relation) list"
  isFriendly :: "Player \<Rightarrow> bool"
  relation :: "Player \<Rightarrow> Relation"

text \<open>
  An intent handed to \<open>game.addExecution\<close>: the attacking troop count, the
  attacking player and the identity of the target. In the game, \<open>maxTroops\<close> is
  \<open>config().maxTroops\<close>, \<open>terraNulliusID\<close> is \<open>terraNullius().id()\<close> and \<open>executions\<close>
  collects what \<open>addExecution\<close> receives.
\<close>

datatype Execution = AttackExecution number PlayerID PlayerID

record Game =
  ticks :: Tick
  maxTroops :: "PlayerID \<Rightarrow> rat"
  terraNulliusID :: PlayerID
  executions :: "Execution list"

definition addExecution :: "Execution \<Rightarrow> Game \<Rightarrow> Game" where
  "addExecution e g = g\<lparr>executions := executions g @ [e]\<rparr>"

text \<open>
  The injected random source: a generator state of type \<open>'r\<close> and the three
  primitives of \<open>PseudoRandom\<close> the controller calls, each returning its result and
  the next generator state.
\<close>

record 'r PseudoRandom =
  chance :: "rat \<Rightarrow> 'r \<Rightarrow> bool \<times> 'r"
  shuffleArray :: "Neighbor list \<Rightarrow> 'r \<Rightarrow> Neighbor list \<times> 'r"
  randElement :: "Player list \<Rightarrow> 'r \<Rightarrow> Player \<times> 'r"

section \<open>The controller\<close>

text \<open>
  The fields of \<open>BotBehavior\<close> that change or tune its decisions. \<open>enemyUpdated\<close> has
  no initialiser: it is \<open>undefined\<close> (\<open>None\<close>) until the first \<open>setNewEnemy\<close>. \<open>rng\<close>
  is the state of the field \<open>random\<close>. The fields \<open>game\<close> and \<open>player\<close> refer to the
  world outside the controller and are arguments of each method instead.
\<close>

record 'r BotBehavior =
  enemy :: "Player option"
  enemyUpdated :: "Tick option"
  rng :: 'r
  triggerRatio :: rat
  reserveRatio :: rat
  expandRatio :: rat

definition setNewEnemy :: "Game \<Rightarrow> Player option \<Rightarrow> 'r BotBehavior \<Rightarrow> 'r BotBehavior" where
  "setNewEnemy g newEnemy b = b\<lparr>enemy := newEnemy, enemyUpdated := Some (ticks g)\<rparr>"

definition clearEnemy :: "'r BotBehavior \<Rightarrow> 'r BotBehavior" where
  "clearEnemy b = b\<lparr>enemy := None\<rparr>"

text \<open>
  \<open>ticks() - enemyUpdated > 100\<close>: with \<open>enemyUpdated\<close> undefined the difference is
  \<open>NaN\<close> and the comparison false.
\<close>

definition forgetOldEnemies :: "Game \<Rightarrow> 'r BotBehavior \<Rightarrow> 'r BotBehavior" where
  "forgetOldEnemies g b =
     (if (case enemyUpdated b of None \<Rightarrow> False | Some u \<Rightarrow> ticks g - u > 100)
      then clearEnemy b else b)"

definition hasSufficientTroops :: "Game \<Rightarrow> Owner \<Rightarrow> 'r BotBehavior \<Rightarrow> bool" where
  "hasSufficientTroops g p b =
     (let maxT = maxTroops g (playerID p);
          ratio = divide_number (troops p) maxT
      in greater_eq_number ratio (Num (triggerRatio b)))"

definition enemySanityCheck :: "Owner \<Rightarrow> 'r BotBehavior \<Rightarrow> Player option \<times> 'r BotBehavior" where
  "enemySanityCheck p b =
     (let b' = (case enemy b of
                  None \<Rightarrow> b
                | Some e \<Rightarrow> if isFriendly p e then clearEnemy b else b)
      in (enemy b', b'))"

text \<open>
  The loop of \<open>checkIncomingAttacks\<close>, with its two variables \<open>largestAttack\<close> and
  \<open>largestAttacker\<close> as accumulators.
\<close>

fun largestAttackLoop :: "Attack list \<Rightarrow> rat \<Rightarrow> Player option \<Rightarrow> rat \<times> Player option" where
  "largestAttackLoop [] largestAttack largestAttacker = (largestAttack, largestAttacker)"
| "largestAttackLoop (attack # rest) largestAttack largestAttacker =
     (if attackTroops attack \<le> largestAttack
      then largestAttackLoop rest largestAttack largestAttacker
      else largestAttackLoop rest (attackTroops attack) (Some (attacker attack)))"

definition checkIncomingAttacks :: "Game \<Rightarrow> Owner \<Rightarrow> 'r BotBehavior \<Rightarrow> 'r BotBehavior" where
  "checkIncomingAttacks g p b =
     (case snd (largestAttackLoop (incomingAttacks p) 0 None) of
        None \<Rightarrow> b
      | Some largestAttacker \<Rightarrow> setNewEnemy g (Some largestAttacker) b)"

text \<open>The players among a list of neighbours that satisfy a predicate, in order.\<close>

fun filterPlayers :: "(Player \<Rightarrow> bool) \<Rightarrow> Neighbor list \<Rightarrow> Player list" where
  "filterPlayers P [] = []"
| "filterPlayers P (IsPlayer q # ns) = (if P q then q # filterPlayers P ns else filterPlayers P ns)"
| "filterPlayers P (TerraNullius # ns) = filterPlayers P ns"

definition getNeighborTraitorToAttack ::
  "'r PseudoRandom \<Rightarrow> Owner \<Rightarrow> 'r BotBehavior \<Rightarrow> Player option \<times> 'r BotBehavior" where
  "getNeighborTraitorToAttack R p b =
     (let traitors = filterPlayers isTraitor (neighbors p)
      in if length traitors > 0
         then (case randElement R traitors (rng b) of
                 (t, r') \<Rightarrow> (Some t, b\<lparr>rng := r'\<rparr>))
         else (None, b))"

definition density :: "Player \<Rightarrow> number" where
  "density p = divide_number (troops p) (of_nat (numTilesOwned p))"

text \<open>
  The loop of \<open>selectEnemy\<close> over the neighbouring bots, with \<open>lowestDensity\<close> and
  \<open>lowestDensityBot\<close> as accumulators.
\<close>

fun lowestDensityLoop :: "Player list \<Rightarrow> number \<Rightarrow> Player option \<Rightarrow> number \<times> Player option" where
  "lowestDensityLoop [] lowestDensity lowestDensityBot = (lowestDensity, lowestDensityBot)"
| "lowestDensityLoop (aBot # rest) lowestDensity lowestDensityBot =
     (let currentDensity = density aBot
      in if less_number currentDensity lowestDensity
         then lowestDensityLoop rest currentDensity (Some aBot)
         else lowestDensityLoop rest lowestDensity lowestDensityBot)"

text \<open>
  \<open>selectEnemy\<close> returns the enemy and leaves the controller updated. The three
  selection steps are \<open>b1\<close> (neighbouring bots), \<open>b2\<close> (retaliation) and \<open>b3\<close> (the
  most hated player, the first entry of \<open>allRelationsSorted()\<close>).
\<close>

definition selectEnemy ::
  "RelationEnum \<Rightarrow> Game \<Rightarrow> Owner \<Rightarrow> 'r BotBehavior \<Rightarrow> Player option \<times> 'r BotBehavior" where
  "selectEnemy E g p b =
     (if enemy b = None then
        if \<not> hasSufficientTroops g p b then (None, b)
        else
          let bots = filterPlayers (\<lambda>n. playerType n = Bot) (neighbors p);
              b1 = (if length bots > 0
                    then (case snd (lowestDensityLoop bots Infinity None) of
                            None \<Rightarrow> b
                          | Some lowestDensityBot \<Rightarrow> setNewEnemy g (Some lowestDensityBot) b)
                    else b);
              b2 = (if enemy b1 = None then checkIncomingAttacks g p b1 else b1);
              b3 = (if enemy b2 = None
                    then (case allRelationsSorted p of
                            [] \<Rightarrow> b2
                          | mostHated # _ \<Rightarrow>
                              if snd mostHated = Hostile E
                              then setNewEnemy g (Some (fst mostHated)) b2 else b2)
                    else b2)
          in enemySanityCheck p b3
      else enemySanityCheck p b)"

text \<open>
  The walk of \<open>selectRandomEnemy\<close> over the shuffled neighbours. There is no
  \<open>break\<close>: every neighbour that passes the three filters is handed to
  \<open>setNewEnemy\<close>, and the walk goes on.
\<close>

fun neighborWalk ::
  "'r PseudoRandom \<Rightarrow> Game \<Rightarrow> Owner \<Rightarrow> Neighbor list \<Rightarrow> 'r BotBehavior \<Rightarrow> 'r BotBehavior" where
  "neighborWalk R g p [] b = b"
| "neighborWalk R g p (TerraNullius # rest) b = neighborWalk R g p rest b"
| "neighborWalk R g p (IsPlayer neighbor # rest) b =
     (if isFriendly p neighbor then neighborWalk R g p rest b
      else if playerType neighbor = FakeHuman
      then (case chance R 2 (rng b) of
              (skip, r') \<Rightarrow>
                if skip then neighborWalk R g p rest (b\<lparr>rng := r'\<rparr>)
                else neighborWalk R g p rest (setNewEnemy g (Some neighbor) (b\<lparr>rng := r'\<rparr>)))
      else neighborWalk R g p rest (setNewEnemy g (Some neighbor) b))"

definition selectRandomEnemy ::
  "'r PseudoRandom \<Rightarrow> Game \<Rightarrow> Owner \<Rightarrow> 'r BotBehavior \<Rightarrow> Player option \<times> 'r BotBehavior" where
  "selectRandomEnemy R g p b =
     (if enemy b = None then
        if \<not> hasSufficientTroops g p b then (None, b)
        else
          let b1 = (case shuffleArray R (neighbors p) (rng b) of
                      (shuffled, r') \<Rightarrow> neighborWalk R g p shuffled (b\<lparr>rng := r'\<rparr>));
              b2 = (if enemy b1 = None then checkIncomingAttacks g p b1 else b1);
              b3 = (if enemy b2 = None
                    then (case getNeighborTraitorToAttack R p b2 of
                            (None, b') \<Rightarrow> b'
                          | (Some toAttack, b') \<Rightarrow>
                              if isFriendly p toAttack then b'
                              else (case chance R 3 (rng b') of
                                      (commit, r') \<Rightarrow>
                                        if commit then setNewEnemy g (Some toAttack) (b'\<lparr>rng := r'\<rparr>)
                                        else b'\<lparr>rng := r'\<rparr>))
                    else b2)
          in enemySanityCheck p b3
      else enemySanityCheck p b)"

text \<open>
  \<open>sendAttack\<close> returns the game with the attack intent added, or unchanged. The
  three numbers it reads are doubles; \<open>targetTroops\<close> and \<open>troops\<close> (here
  \<open>attackingTroops\<close>) are computed in binary64.
\<close>

definition sendAttack :: "Game \<Rightarrow> Owner \<Rightarrow> 'r BotBehavior \<Rightarrow> Neighbor \<Rightarrow> Game" where
  "sendAttack g p b target =
     (if (case target of IsPlayer t \<Rightarrow> isFriendly p t | TerraNullius \<Rightarrow> False) then g
      else
        let maxT = round64 (maxTroops g (playerID p));
            ratio = round64 (case target of IsPlayer t \<Rightarrow> reserveRatio b
                                          | TerraNullius \<Rightarrow> expandRatio b);
            targetTroops = mul_number maxT ratio;
            attackingTroops = sub_number (round64 (troops p)) targetTroops
        in if less_number attackingTroops (Num 1) then g
           else addExecution
                  (AttackExecution attackingTroops (playerID p)
                     (case target of IsPlayer t \<Rightarrow> playerID t | TerraNullius \<Rightarrow> terraNulliusID g))
                  g)"

section \<open>Alliance requests\<close>

record AllianceRequest =
  requestor :: Player

definition shouldAcceptAllianceRequest :: "RelationEnum \<Rightarrow> Owner \<Rightarrow> AllianceRequest \<Rightarrow> bool" where
  "shouldAcceptAllianceRequest E player request =
     (if relation player (requestor request) < Neutral E then False
      else if isTraitor (requestor request) then False
      else if numTilesOwned (requestor request) > numTilesOwned player * 3 then True
      else if length (alliances (requestor request)) \<ge> 3 then False
      else True)"

section \<open>Reference notions for the properties\<close>

text \<open>
  The engine calls \<open>forgetOldEnemies\<close> once per tick: \<open>runTicks g ts b\<close> makes that
  call at each tick of \<open>ts\<close> in turn, and nothing else touches the controller.
\<close>

fun runTicks :: "Game \<Rightarrow> Tick list \<Rightarrow> 'r BotBehavior \<Rightarrow> 'r BotBehavior" where
  "runTicks g [] b = b"
| "runTicks g (t # ts) b = runTicks g ts (forgetOldEnemies (g\<lparr>ticks := t\<rparr>) b)"

text \<open>The ticks \<open>T + 1, \<dots>, T + n\<close> that follow tick \<open>T\<close>.\<close>

definition ticksAfter :: "Tick \<Rightarrow> nat \<Rightarrow> Tick list" where
  "ticksAfter T n = map (\<lambda>i. T + int i) [1..<Suc n]"

text \<open>
  The neighbours of a walk that qualify, in the order of the walk: the players that
  are not friendly and, when of type \<open>FakeHuman\<close>, are not skipped by their
  \<open>chance(2)\<close> trial. The trials are drawn in the order of the walk, so the
  generator state is threaded through and returned.
\<close>

fun qualifyingNeighbors ::
  "'r PseudoRandom \<Rightarrow> Owner \<Rightarrow> Neighbor list \<Rightarrow> 'r \<Rightarrow> Player list \<times> 'r" where
  "qualifyingNeighbors R p [] r = ([], r)"
| "qualifyingNeighbors R p (TerraNullius # rest) r = qualifyingNeighbors R p rest r"
| "qualifyingNeighbors R p (IsPlayer n # rest) r =
     (if isFriendly p n then qualifyingNeighbors R p rest r
      else if playerType n = FakeHuman
      then (case chance R 2 r of
              (skip, r') \<Rightarrow>
                if skip then qualifyingNeighbors R p rest r'
                else (case qualifyingNeighbors R p rest r' of (qs, r'') \<Rightarrow> (n # qs, r'')))
      else (case qualifyingNeighbors R p rest r of (qs, r') \<Rightarrow> (n # qs, r')))"

text \<open>The neighbours that are players of type \<open>Bot\<close>, as \<open>selectEnemy\<close> filters them.\<close>

definition adjacentBots :: "Owner \<Rightarrow> Player list" where
  "adjacentBots p = filterPlayers (\<lambda>n. playerType n = Bot) (neighbors p)"

text \<open>
  The two fallback steps and the final check of \<open>selectEnemy\<close>, from a controller
  state in which the bot step has run.
\<close>

definition selectEnemyFallback ::
  "RelationEnum \<Rightarrow> Game \<Rightarrow> Owner \<Rightarrow> 'r BotBehavior \<Rightarrow> Player option \<times> 'r BotBehavior" where
  "selectEnemyFallback E g p b1 =
     (let b2 = (if enemy b1 = None then checkIncomingAttacks g p b1 else b1);
          b3 = (if enemy b2 = None
                then (case allRelationsSorted p of
                        [] \<Rightarrow> b2
                      | mostHated # _ \<Rightarrow>
                          if snd mostHated = Hostile E
                          then setNewEnemy g (Some (fst mostHated)) b2 else b2)
                else b2)
      in enemySanityCheck p b3)"

text \<open>
  The reserve floor of \<open>sendAttack\<close> for a given ratio, as the code computes it: the
  binary64 product of \<open>maxTroops\<close> and the ratio.
\<close>

definition reserveFloor :: "Game \<Rightarrow> Owner \<Rightarrow> rat \<Rightarrow> number" where
  "reserveFloor g p ratio = mul_number (round64 (maxTroops g (playerID p))) (round64 ratio)"

section \<open>A concrete game\<close>

definition exEnum :: RelationEnum where
  "exEnum = \<lparr>Hostile = 0, Neutral = 2, Friendly = 3\<rparr>"

definition exPlayer :: "PlayerID \<Rightarrow> PlayerType \<Rightarrow> rat \<Rightarrow> nat \<Rightarrow> Player" where
  "exPlayer i ty t n =
     \<lparr>playerID = i, playerType = ty, troops = t, numTilesOwned = n,
      isTraitor = False, alliances = []\<rparr>"

text \<open>
  The controlled player: 80 troops on 10 tiles, friendly with the players whose
  identity starts with \<open>F\<close>, neutral towards everyone.
\<close>

definition exOwner :: "Neighbor list \<Rightarrow> Attack list \<Rightarrow> Owner" where
  "exOwner ns as =
     \<lparr>playerID = ''me'', playerType = FakeHuman, troops = 80, numTilesOwned = 10,
      isTraitor = False, alliances = [],
      neighbors = ns, incomingAttacks = as, allRelationsSorted = [],
      isFriendly = (\<lambda>q. take 1 (playerID q) = ''F''), relation = (\<lambda>q. 2)\<rparr>"

definition exGame :: Game where
  "exGame = \<lparr>ticks = 7, maxTroops = (\<lambda>i. 100), terraNulliusID = ''terra'', executions = []\<rparr>"

text \<open>
  A random source that reads its trials from a list of booleans, reverses the
  array it is asked to shuffle and picks the first element.
\<close>

definition exRandom :: "bool list PseudoRandom" where
  "exRandom =
     \<lparr>chance = (\<lambda>odds r. case r of [] \<Rightarrow> (False, []) | x # xs \<Rightarrow> (x, xs)),
      shuffleArray = (\<lambda>ns r. (rev ns, r)),
      randElement = (\<lambda>ps r. (hd ps, r))\<rparr>"

definition exBehavior :: "bool list \<Rightarrow> bool list BotBehavior" where
  "exBehavior r =
     \<lparr>enemy = None, enemyUpdated = None, rng = r,
      triggerRatio = 1 / 2, reserveRatio = 3 / 10, expandRatio = 1 / 10\<rparr>"

section \<open>The sanity check\<close>

lemma enemySanityCheck_result:
  "enemySanityCheck p b =
     (case enemy b of
        None \<Rightarrow> (None, b)
      | Some e \<Rightarrow> if isFriendly p e then (None, b\<lparr>enemy := None\<rparr>) else (Some e, b))"
  by (simp add: enemySanityCheck_def clearEnemy_def Let_def split: option.splits)

lemma enemySanityCheck_not_friendly:
  "fst (enemySanityCheck p b) = Some e \<Longrightarrow> \<not> isFriendly p e"
  by (auto simp: enemySanityCheck_result split: option.splits if_splits)

lemma selectEnemy_shape:
  "selectEnemy E g p b = (None, b) \<or> (\<exists>b'. selectEnemy E g p b = enemySanityCheck p b')"
  unfolding selectEnemy_def Let_def
  by (cases "enemy b = None"; cases "hasSufficientTroops g p b") auto

lemma selectRandomEnemy_shape:
  "selectRandomEnemy R g p b = (None, b)
   \<or> (\<exists>b'. selectRandomEnemy R g p b = enemySanityCheck p b')"
  unfolding selectRandomEnemy_def Let_def
  by (cases "enemy b = None"; cases "hasSufficientTroops g p b") auto

text \<open>
  Claim C1. \<open>enemySanityCheck\<close> never returns a player that is friendly to the
  controlled player: when the current enemy is set and friendly it clears the enemy
  and returns \<open>null\<close>, otherwise it returns the current enemy and changes nothing.
  \<open>selectEnemy\<close> and \<open>selectRandomEnemy\<close> never return a friendly player either.
\<close>

theorem enemySanityCheck_never_friendly:
  "(\<forall>e. fst (enemySanityCheck p b) = Some e \<longrightarrow> \<not> isFriendly p e)
   \<and> ((\<exists>e. enemy b = Some e \<and> isFriendly p e) \<longrightarrow>
        enemySanityCheck p b = (None, b\<lparr>enemy := None\<rparr>))
   \<and> (\<not> (\<exists>e. enemy b = Some e \<and> isFriendly p e) \<longrightarrow>
        enemySanityCheck p b = (enemy b, b))
   \<and> (\<forall>e. fst (selectEnemy E g p b) = Some e \<longrightarrow> \<not> isFriendly p e)
   \<and> (\<forall>e. fst (selectRandomEnemy R g p b) = Some e \<longrightarrow> \<not> isFriendly p e)"
proof (intro conjI allI impI)
  fix e assume "fst (enemySanityCheck p b) = Some e"
  then show "\<not> isFriendly p e" by (rule enemySanityCheck_not_friendly)
next
  assume "\<exists>e. enemy b = Some e \<and> isFriendly p e"
  then show "enemySanityCheck p b = (None, b\<lparr>enemy := None\<rparr>)"
    by (auto simp: enemySanityCheck_result)
next
  assume "\<not> (\<exists>e. enemy b = Some e \<and> isFriendly p e)"
  then show "enemySanityCheck p b = (enemy b, b)"
    by (auto simp: enemySanityCheck_result split: option.splits)
next
  fix e assume "fst (selectEnemy E g p b) = Some e"
  with selectEnemy_shape [of E g p b] show "\<not> isFriendly p e"
    by (auto dest: enemySanityCheck_not_friendly)
next
  fix e assume "fst (selectRandomEnemy R g p b) = Some e"
  with selectRandomEnemy_shape [of R g p b] show "\<not> isFriendly p e"
    by (auto dest: enemySanityCheck_not_friendly)
qed

theorem enemySanityCheck_never_friendly_witness:
  "enemySanityCheck (exOwner [] []) ((exBehavior [])\<lparr>enemy := Some (exPlayer ''Fa'' Bot 20 10)\<rparr>)
     = (None, exBehavior [])
   \<and> enemySanityCheck (exOwner [] []) ((exBehavior [])\<lparr>enemy := Some (exPlayer ''a'' Bot 20 10)\<rparr>)
     = (Some (exPlayer ''a'' Bot 20 10), (exBehavior [])\<lparr>enemy := Some (exPlayer ''a'' Bot 20 10)\<rparr>)
   \<and> fst (selectEnemy exEnum exGame
         (exOwner [IsPlayer (exPlayer ''a'' Bot 50 10), IsPlayer (exPlayer ''b'' Bot 20 10)] [])
         (exBehavior [])) = Some (exPlayer ''b'' Bot 20 10)
   \<and> \<not> isFriendly (exOwner [IsPlayer (exPlayer ''a'' Bot 50 10), IsPlayer (exPlayer ''b'' Bot 20 10)] [])
         (exPlayer ''b'' Bot 20 10)
   \<and> fst (selectRandomEnemy exRandom exGame
         (exOwner [IsPlayer (exPlayer ''a'' Bot 50 10), IsPlayer (exPlayer ''b'' Bot 20 10)] [])
         (exBehavior [])) = Some (exPlayer ''a'' Bot 50 10)
   \<and> \<not> isFriendly (exOwner [IsPlayer (exPlayer ''a'' Bot 50 10), IsPlayer (exPlayer ''b'' Bot 20 10)] [])
         (exPlayer ''a'' Bot 50 10)"
  using enemySanityCheck_never_friendly
    [of "exOwner [] []" "(exBehavior [])\<lparr>enemy := Some (exPlayer ''Fa'' Bot 20 10)\<rparr>"
        exEnum exGame exRandom]
    enemySanityCheck_never_friendly
    [of "exOwner [] []" "(exBehavior [])\<lparr>enemy := Some (exPlayer ''a'' Bot 20 10)\<rparr>"
        exEnum exGame exRandom]
    enemySanityCheck_never_friendly
    [of "exOwner [IsPlayer (exPlayer ''a'' Bot 50 10), IsPlayer (exPlayer ''b'' Bot 20 10)] []"
        "exBehavior []" exEnum exGame exRandom]
  by (simp add: exOwner_def exBehavior_def exPlayer_def exGame_def exEnum_def exRandom_def
      selectEnemy_def selectRandomEnemy_def hasSufficientTroops_def divide_number_def
      density_def setNewEnemy_def enemySanityCheck_def clearEnemy_def Let_def)

section \<open>Staleness of the enemy\<close>

lemma runTicks_append: "runTicks g (ts @ us) b = runTicks g us (runTicks g ts b)"
  by (induction ts arbitrary: b) simp_all

lemma ticksAfter_Suc: "ticksAfter T (Suc n) = ticksAfter T n @ [T + int (Suc n)]"
  by (simp add: ticksAfter_def)

lemma forgetOldEnemies_step:
  "enemyUpdated b = Some T \<Longrightarrow>
   forgetOldEnemies g b = (if ticks g - T > 100 then b\<lparr>enemy := None\<rparr> else b)"
  by (simp add: forgetOldEnemies_def clearEnemy_def)

lemma runTicks_enemyUpdated: "enemyUpdated (runTicks g ts b) = enemyUpdated b"
  by (induction ts arbitrary: b) (simp_all add: forgetOldEnemies_def clearEnemy_def)

lemma runTicks_ticksAfter:
  "enemyUpdated b = Some T \<Longrightarrow>
   runTicks g (ticksAfter T n) b = (if n \<le> 100 then b else b\<lparr>enemy := None\<rparr>)"
proof (induction n)
  case 0
  then show ?case by (simp add: ticksAfter_def)
next
  case (Suc n)
  let ?b = "runTicks g (ticksAfter T n) b"
  have u: "enemyUpdated ?b = Some T"
    using Suc.prems by (simp add: runTicks_enemyUpdated)
  have "runTicks g (ticksAfter T (Suc n)) b
          = forgetOldEnemies (g\<lparr>ticks := T + int (Suc n)\<rparr>) ?b"
    by (simp add: ticksAfter_Suc runTicks_append)
  also have "\<dots> = (if int (Suc n) > 100 then ?b\<lparr>enemy := None\<rparr> else ?b)"
    using forgetOldEnemies_step [OF u, of "g\<lparr>ticks := T + int (Suc n)\<rparr>"] by simp
  also have "\<dots> = (if Suc n \<le> 100 then b else b\<lparr>enemy := None\<rparr>)"
    using Suc.IH [OF Suc.prems] by auto
  finally show ?case .
qed

text \<open>
  Claim C2. An enemy set at tick \<open>T\<close> and not reassigned survives a call of
  \<open>forgetOldEnemies\<close> at every tick \<open>t\<close> with \<open>t - T \<le> 100\<close> and is cleared by a
  call at a tick with \<open>t - T > 100\<close>. Called once per tick after \<open>T\<close>, the enemy is
  in place after the calls of ticks \<open>T + 1, \<dots>, T + n\<close> exactly when \<open>n \<le> 100\<close>: it
  persists through tick \<open>T + 100\<close> and is cleared at tick \<open>T + 101\<close>.
\<close>

theorem forgetOldEnemies_exact:
  "forgetOldEnemies g (setNewEnemy g0 (Some e) b) =
     (if ticks g - ticks g0 \<le> 100 then setNewEnemy g0 (Some e) b
      else (setNewEnemy g0 (Some e) b)\<lparr>enemy := None\<rparr>)
   \<and> enemy (runTicks g (ticksAfter (ticks g0) n) (setNewEnemy g0 (Some e) b)) =
     (if n \<le> 100 then Some e else None)"
proof
  have u: "enemyUpdated (setNewEnemy g0 (Some e) b) = Some (ticks g0)"
    by (simp add: setNewEnemy_def)
  show "forgetOldEnemies g (setNewEnemy g0 (Some e) b) =
     (if ticks g - ticks g0 \<le> 100 then setNewEnemy g0 (Some e) b
      else (setNewEnemy g0 (Some e) b)\<lparr>enemy := None\<rparr>)"
    using forgetOldEnemies_step [OF u, of g] by auto
  show "enemy (runTicks g (ticksAfter (ticks g0) n) (setNewEnemy g0 (Some e) b)) =
     (if n \<le> 100 then Some e else None)"
    using runTicks_ticksAfter [OF u, of g n] by (simp add: setNewEnemy_def)
qed

theorem forgetOldEnemies_exact_witness:
  "enemy (runTicks exGame (ticksAfter 7 100)
            (setNewEnemy exGame (Some (exPlayer ''a'' Bot 50 10)) (exBehavior [])))
     = Some (exPlayer ''a'' Bot 50 10)
   \<and> enemy (runTicks exGame (ticksAfter 7 101)
            (setNewEnemy exGame (Some (exPlayer ''a'' Bot 50 10)) (exBehavior [])))
     = None
   \<and> enemy (forgetOldEnemies (exGame\<lparr>ticks := 107\<rparr>)
            (setNewEnemy exGame (Some (exPlayer ''a'' Bot 50 10)) (exBehavior [])))
     = Some (exPlayer ''a'' Bot 50 10)
   \<and> enemy (forgetOldEnemies (exGame\<lparr>ticks := 108\<rparr>)
            (setNewEnemy exGame (Some (exPlayer ''a'' Bot 50 10)) (exBehavior [])))
     = None"
  using forgetOldEnemies_exact [of "exGame\<lparr>ticks := 107\<rparr>" exGame "exPlayer ''a'' Bot 50 10" "exBehavior []" 100]
    forgetOldEnemies_exact [of "exGame\<lparr>ticks := 108\<rparr>" exGame "exPlayer ''a'' Bot 50 10" "exBehavior []" 101]
    forgetOldEnemies_exact [of exGame exGame "exPlayer ''a'' Bot 50 10" "exBehavior []" 100]
    forgetOldEnemies_exact [of exGame exGame "exPlayer ''a'' Bot 50 10" "exBehavior []" 101]
  by (simp add: exGame_def setNewEnemy_def)

section \<open>The troop-readiness gate\<close>

lemma less_number_not_greater_eq: "less_number a b \<Longrightarrow> \<not> greater_eq_number a b"
  by (cases a; cases b) simp_all

text \<open>
  Claim C6. With no enemy set and \<open>hasSufficientTroops()\<close> false (in particular when
  \<open>troops / maxTroops < triggerRatio\<close>), \<open>selectEnemy\<close> and \<open>selectRandomEnemy\<close> return
  \<open>null\<close> and leave the controller as it was, the random source included.
\<close>

theorem insufficient_troops_no_enemy:
  "enemy b = None \<Longrightarrow>
   \<not> hasSufficientTroops g p b
     \<or> less_number (divide_number (troops p) (maxTroops g (playerID p))) (Num (triggerRatio b)) \<Longrightarrow>
   selectEnemy E g p b = (None, b) \<and> selectRandomEnemy R g p b = (None, b)"
proof -
  assume e: "enemy b = None"
  assume "\<not> hasSufficientTroops g p b
     \<or> less_number (divide_number (troops p) (maxTroops g (playerID p))) (Num (triggerRatio b))"
  then have "\<not> hasSufficientTroops g p b"
    by (auto simp: hasSufficientTroops_def Let_def dest: less_number_not_greater_eq)
  with e show ?thesis
    by (simp add: selectEnemy_def selectRandomEnemy_def)
qed

theorem insufficient_troops_no_enemy_witness:
  "enemy (exBehavior [True]) = None
   \<and> \<not> hasSufficientTroops (exGame\<lparr>maxTroops := (\<lambda>i. 200)\<rparr>)
         (exOwner [IsPlayer (exPlayer ''a'' Bot 50 10)] []) (exBehavior [True])
   \<and> selectEnemy exEnum (exGame\<lparr>maxTroops := (\<lambda>i. 200)\<rparr>)
         (exOwner [IsPlayer (exPlayer ''a'' Bot 50 10)] []) (exBehavior [True])
       = (None, exBehavior [True])
   \<and> selectRandomEnemy exRandom (exGame\<lparr>maxTroops := (\<lambda>i. 200)\<rparr>)
         (exOwner [IsPlayer (exPlayer ''a'' Bot 50 10)] []) (exBehavior [True])
       = (None, exBehavior [True])"
proof -
  have e: "enemy (exBehavior [True]) = None"
    by (simp add: exBehavior_def)
  have h: "\<not> hasSufficientTroops (exGame\<lparr>maxTroops := (\<lambda>i. 200)\<rparr>)
         (exOwner [IsPlayer (exPlayer ''a'' Bot 50 10)] []) (exBehavior [True])"
    by (simp add: hasSufficientTroops_def exGame_def exOwner_def exBehavior_def
        divide_number_def)
  show ?thesis
    using e h insufficient_troops_no_enemy [OF e disjI1, OF h, of exEnum exRandom] by simp
qed

section \<open>Alliance requests, in priority order\<close>

text \<open>
  A traitor towards whom the player is neutral, no larger than the player and
  holding no alliance, falls under none of the first three rules of claim C7 as it
  is worded, and is rejected all the same.
\<close>

theorem shouldAcceptAllianceRequest_everything_else_counterexample:
  "\<not> relation (exOwner [] []) ((exPlayer ''t'' Human 10 10)\<lparr>isTraitor := True\<rparr>) < Neutral exEnum
   \<and> \<not> (\<not> isTraitor ((exPlayer ''t'' Human 10 10)\<lparr>isTraitor := True\<rparr>)
        \<and> numTilesOwned ((exPlayer ''t'' Human 10 10)\<lparr>isTraitor := True\<rparr>)
            > numTilesOwned (exOwner [] []) * 3)
   \<and> \<not> length (alliances ((exPlayer ''t'' Human 10 10)\<lparr>isTraitor := True\<rparr>)) \<ge> 3
   \<and> \<not> shouldAcceptAllianceRequest exEnum (exOwner [] [])
         \<lparr>requestor = (exPlayer ''t'' Human 10 10)\<lparr>isTraitor := True\<rparr>\<rparr>"
  by (simp add: shouldAcceptAllianceRequest_def exOwner_def exPlayer_def exEnum_def)

text \<open>
  Claim C7, amended. \<open>shouldAcceptAllianceRequest\<close> is a function of the player and
  the request alone and applies its rules in strict priority order: a requestor with
  relation below \<open>Neutral\<close> is rejected whatever else holds; a traitor with relation at
  least \<open>Neutral\<close> is rejected; a non-traitor with relation at least \<open>Neutral\<close> whose
  tile count exceeds three times the player's is accepted, whatever the number of its
  alliances; a requestor with three alliances or more and without that size override
  is rejected; every other requestor (relation at least \<open>Neutral\<close>, no traitor, fewer
  than three alliances) is accepted.
\<close>

theorem shouldAcceptAllianceRequest_priority:
  "(relation player (requestor request) < Neutral E \<longrightarrow>
      \<not> shouldAcceptAllianceRequest E player request)
   \<and> (relation player (requestor request) \<ge> Neutral E \<and> isTraitor (requestor request) \<longrightarrow>
      \<not> shouldAcceptAllianceRequest E player request)
   \<and> (relation player (requestor request) \<ge> Neutral E \<and> \<not> isTraitor (requestor request)
       \<and> numTilesOwned (requestor request) > numTilesOwned player * 3 \<longrightarrow>
      shouldAcceptAllianceRequest E player request)
   \<and> (length (alliances (requestor request)) \<ge> 3
       \<and> \<not> (relation player (requestor request) \<ge> Neutral E \<and> \<not> isTraitor (requestor request)
            \<and> numTilesOwned (requestor request) > numTilesOwned player * 3) \<longrightarrow>
      \<not> shouldAcceptAllianceRequest E player request)
   \<and> (relation player (requestor request) \<ge> Neutral E \<and> \<not> isTraitor (requestor request)
       \<and> length (alliances (requestor request)) < 3 \<longrightarrow>
      shouldAcceptAllianceRequest E player request)"
  by (simp add: shouldAcceptAllianceRequest_def)

theorem shouldAcceptAllianceRequest_priority_witness:
  "relation (exOwner [] []\<lparr>relation := (\<lambda>q. 1)\<rparr>) (exPlayer ''big'' Human 10 40) < Neutral exEnum
   \<and> \<not> shouldAcceptAllianceRequest exEnum (exOwner [] []\<lparr>relation := (\<lambda>q. 1)\<rparr>)
         \<lparr>requestor = exPlayer ''big'' Human 10 40\<rparr>
   \<and> \<not> shouldAcceptAllianceRequest exEnum (exOwner [] [])
         \<lparr>requestor = (exPlayer ''big'' Human 10 40)\<lparr>isTraitor := True\<rparr>\<rparr>
   \<and> numTilesOwned ((exPlayer ''big'' Human 10 31)\<lparr>alliances := [''x'', ''y'', ''z'']\<rparr>)
       > numTilesOwned (exOwner [] []) * 3
   \<and> shouldAcceptAllianceRequest exEnum (exOwner [] [])
         \<lparr>requestor = (exPlayer ''big'' Human 10 31)\<lparr>alliances := [''x'', ''y'', ''z'']\<rparr>\<rparr>
   \<and> \<not> shouldAcceptAllianceRequest exEnum (exOwner [] [])
         \<lparr>requestor = (exPlayer ''even'' Human 10 30)\<lparr>alliances := [''x'', ''y'', ''z'']\<rparr>\<rparr>
   \<and> shouldAcceptAllianceRequest exEnum (exOwner [] [])
         \<lparr>requestor = (exPlayer ''even'' Human 10 30)\<lparr>alliances := [''x'', ''y'']\<rparr>\<rparr>"
  using shouldAcceptAllianceRequest_priority
      [of "exOwner [] []\<lparr>relation := (\<lambda>q. 1)\<rparr>" "\<lparr>requestor = exPlayer ''big'' Human 10 40\<rparr>" exEnum]
    shouldAcceptAllianceRequest_priority
      [of "exOwner [] []" "\<lparr>requestor = (exPlayer ''big'' Human 10 40)\<lparr>isTraitor := True\<rparr>\<rparr>" exEnum]
    shouldAcceptAllianceRequest_priority
      [of "exOwner [] []"
          "\<lparr>requestor = (exPlayer ''big'' Human 10 31)\<lparr>alliances := [''x'', ''y'', ''z'']\<rparr>\<rparr>" exEnum]
    shouldAcceptAllianceRequest_priority
      [of "exOwner [] []"
          "\<lparr>requestor = (exPlayer ''even'' Human 10 30)\<lparr>alliances := [''x'', ''y'', ''z'']\<rparr>\<rparr>" exEnum]
    shouldAcceptAllianceRequest_priority
      [of "exOwner [] []"
          "\<lparr>requestor = (exPlayer ''even'' Human 10 30)\<lparr>alliances := [''x'', ''y'']\<rparr>\<rparr>" exEnum]
  by (simp add: exOwner_def exPlayer_def exEnum_def)

section \<open>Retaliation\<close>

lemma largestAttackLoop_none:
  "\<forall>a\<in>set as. attackTroops a \<le> la \<Longrightarrow> largestAttackLoop as la lp = (la, lp)"
  by (induction as) simp_all

lemma largestAttackLoop_some:
  "\<exists>a\<in>set as. la < attackTroops a \<Longrightarrow>
   \<exists>pre m post. as = pre @ m # post
     \<and> largestAttackLoop as la lp = (attackTroops m, Some (attacker m))
     \<and> la < attackTroops m
     \<and> (\<forall>x\<in>set pre. attackTroops x < attackTroops m)
     \<and> (\<forall>x\<in>set post. attackTroops x \<le> attackTroops m)"
proof (induction as arbitrary: la lp)
  case Nil
  then show ?case by simp
next
  case (Cons a rest)
  show ?case
  proof (cases "attackTroops a \<le> la")
    case True
    with Cons.prems have "\<exists>x\<in>set rest. la < attackTroops x" by auto
    from Cons.IH [OF this, of lp] obtain pre m post where
      r: "rest = pre @ m # post"
      and l: "largestAttackLoop rest la lp = (attackTroops m, Some (attacker m))"
      and g: "la < attackTroops m"
      and b: "\<forall>x\<in>set pre. attackTroops x < attackTroops m"
      and f: "\<forall>x\<in>set post. attackTroops x \<le> attackTroops m"
      by blast
    have "a # rest = (a # pre) @ m # post" using r by simp
    moreover have "largestAttackLoop (a # rest) la lp = (attackTroops m, Some (attacker m))"
      using True l by simp
    moreover have "\<forall>x\<in>set (a # pre). attackTroops x < attackTroops m"
      using True g b by auto
    ultimately show ?thesis using g f by blast
  next
    case False
    then have step: "largestAttackLoop (a # rest) la lp
        = largestAttackLoop rest (attackTroops a) (Some (attacker a))"
      by simp
    show ?thesis
    proof (cases "\<exists>x\<in>set rest. attackTroops a < attackTroops x")
      case True
      from Cons.IH [OF this, of "Some (attacker a)"] obtain pre m post where
        r: "rest = pre @ m # post"
        and l: "largestAttackLoop rest (attackTroops a) (Some (attacker a))
                  = (attackTroops m, Some (attacker m))"
        and g: "attackTroops a < attackTroops m"
        and b: "\<forall>x\<in>set pre. attackTroops x < attackTroops m"
        and f: "\<forall>x\<in>set post. attackTroops x \<le> attackTroops m"
        by blast
      have "a # rest = (a # pre) @ m # post" using r by simp
      moreover have "largestAttackLoop (a # rest) la lp = (attackTroops m, Some (attacker m))"
        using step l by simp
      moreover have "\<forall>x\<in>set (a # pre). attackTroops x < attackTroops m"
        using g b by auto
      moreover have "la < attackTroops m" using False g by simp
      ultimately show ?thesis using f by blast
    next
      case no: False
      then have le: "\<forall>x\<in>set rest. attackTroops x \<le> attackTroops a" by auto
      have "largestAttackLoop (a # rest) la lp = (attackTroops a, Some (attacker a))"
        using step largestAttackLoop_none [OF le] by simp
      moreover have "a # rest = [] @ a # rest" by simp
      moreover have "la < attackTroops a" using False by simp
      ultimately show ?thesis using le by (metis empty_iff empty_set)
    qed
  qed
qed

text \<open>
  Claim C10. \<open>checkIncomingAttacks\<close> sets an enemy only if some incoming attack has
  a strictly positive troop count: when every incoming attack has troops \<open>\<le> 0\<close> the
  controller is left as it was, since the running maximum starts at 0 and only a
  strictly larger troop count replaces it.
\<close>

theorem checkIncomingAttacks_needs_positive_troops:
  "((\<forall>a\<in>set (incomingAttacks p). attackTroops a \<le> 0) \<longrightarrow> checkIncomingAttacks g p b = b)
   \<and> (checkIncomingAttacks g p b \<noteq> b \<longrightarrow> (\<exists>a\<in>set (incomingAttacks p). 0 < attackTroops a))"
proof -
  have "checkIncomingAttacks g p b = b" if "\<forall>a\<in>set (incomingAttacks p). attackTroops a \<le> 0"
    using largestAttackLoop_none [OF that, of None]
    by (simp add: checkIncomingAttacks_def)
  then show ?thesis by (meson not_le)
qed

theorem checkIncomingAttacks_needs_positive_troops_witness:
  "map attackTroops (incomingAttacks (exOwner []
        [\<lparr>attackTroops = 0, attacker = exPlayer ''a'' Human 10 10\<rparr>,
         \<lparr>attackTroops = - 3, attacker = exPlayer ''b'' Human 10 10\<rparr>])) = [0, - 3]
   \<and> checkIncomingAttacks exGame (exOwner []
        [\<lparr>attackTroops = 0, attacker = exPlayer ''a'' Human 10 10\<rparr>,
         \<lparr>attackTroops = - 3, attacker = exPlayer ''b'' Human 10 10\<rparr>]) (exBehavior [])
       = exBehavior []
   \<and> checkIncomingAttacks exGame (exOwner []
        [\<lparr>attackTroops = 0, attacker = exPlayer ''a'' Human 10 10\<rparr>,
         \<lparr>attackTroops = 3, attacker = exPlayer ''b'' Human 10 10\<rparr>]) (exBehavior [])
       \<noteq> exBehavior []
   \<and> (\<exists>a\<in>set (incomingAttacks (exOwner []
        [\<lparr>attackTroops = 0, attacker = exPlayer ''a'' Human 10 10\<rparr>,
         \<lparr>attackTroops = 3, attacker = exPlayer ''b'' Human 10 10\<rparr>])). 0 < attackTroops a)"
proof -
  let ?p = "exOwner []
        [\<lparr>attackTroops = 0, attacker = exPlayer ''a'' Human 10 10\<rparr>,
         \<lparr>attackTroops = - 3, attacker = exPlayer ''b'' Human 10 10\<rparr>]"
  let ?q = "exOwner []
        [\<lparr>attackTroops = 0, attacker = exPlayer ''a'' Human 10 10\<rparr>,
         \<lparr>attackTroops = 3, attacker = exPlayer ''b'' Human 10 10\<rparr>]"
  have h: "\<forall>a\<in>set (incomingAttacks ?p). attackTroops a \<le> 0"
    by (simp add: exOwner_def)
  have c: "checkIncomingAttacks exGame ?q (exBehavior []) \<noteq> exBehavior []"
    by (simp add: checkIncomingAttacks_def exOwner_def exBehavior_def setNewEnemy_def)
  have m: "map attackTroops (incomingAttacks ?p) = [0, - 3]"
    by (simp add: exOwner_def)
  show ?thesis
    using h m c checkIncomingAttacks_needs_positive_troops [of ?p exGame "exBehavior []"]
      checkIncomingAttacks_needs_positive_troops [of ?q exGame "exBehavior []"]
    by blast
qed

text \<open>
  An incoming attack exists, with a troop count of 0, and no enemy is set: claim C5
  as it is worded fails here.
\<close>

theorem checkIncomingAttacks_zero_troops_counterexample:
  "incomingAttacks (exOwner [] [\<lparr>attackTroops = 0, attacker = exPlayer ''a'' Human 10 10\<rparr>]) \<noteq> []
   \<and> enemy (checkIncomingAttacks exGame
        (exOwner [] [\<lparr>attackTroops = 0, attacker = exPlayer ''a'' Human 10 10\<rparr>]) (exBehavior []))
      = None"
  by (simp add: checkIncomingAttacks_def exOwner_def exBehavior_def)

text \<open>
  Claim C5, amended. If some incoming attack has a strictly positive troop count,
  \<open>checkIncomingAttacks\<close> sets as enemy (at the current tick) the attacker of the
  attack with the largest troop count, the first such attack in enumeration order:
  every earlier attack has strictly fewer troops, no later one has more. With no
  incoming attack the controller is left as it was.
\<close>

theorem checkIncomingAttacks_largest:
  "(incomingAttacks p = [] \<longrightarrow> checkIncomingAttacks g p b = b)
   \<and> ((\<exists>a\<in>set (incomingAttacks p). 0 < attackTroops a) \<longrightarrow>
       (\<exists>pre m post. incomingAttacks p = pre @ m # post
          \<and> (\<forall>x\<in>set pre. attackTroops x < attackTroops m)
          \<and> (\<forall>x\<in>set post. attackTroops x \<le> attackTroops m)
          \<and> checkIncomingAttacks g p b = b\<lparr>enemy := Some (attacker m), enemyUpdated := Some (ticks g)\<rparr>))"
proof (intro conjI impI)
  assume "incomingAttacks p = []"
  then show "checkIncomingAttacks g p b = b"
    by (simp add: checkIncomingAttacks_def)
next
  assume "\<exists>a\<in>set (incomingAttacks p). 0 < attackTroops a"
  from largestAttackLoop_some [OF this, of None] obtain pre m post where
    r: "incomingAttacks p = pre @ m # post"
    and l: "largestAttackLoop (incomingAttacks p) 0 None = (attackTroops m, Some (attacker m))"
    and b: "\<forall>x\<in>set pre. attackTroops x < attackTroops m"
    and f: "\<forall>x\<in>set post. attackTroops x \<le> attackTroops m"
    by blast
  have "checkIncomingAttacks g p b = b\<lparr>enemy := Some (attacker m), enemyUpdated := Some (ticks g)\<rparr>"
    using l by (simp add: checkIncomingAttacks_def setNewEnemy_def)
  with r b f show "\<exists>pre m post. incomingAttacks p = pre @ m # post
          \<and> (\<forall>x\<in>set pre. attackTroops x < attackTroops m)
          \<and> (\<forall>x\<in>set post. attackTroops x \<le> attackTroops m)
          \<and> checkIncomingAttacks g p b = b\<lparr>enemy := Some (attacker m), enemyUpdated := Some (ticks g)\<rparr>"
    by blast
qed


theorem checkIncomingAttacks_largest_witness:
  "(\<exists>a\<in>set (incomingAttacks (exOwner []
        [\<lparr>attackTroops = 10, attacker = exPlayer ''a'' Human 10 10\<rparr>,
         \<lparr>attackTroops = 25, attacker = exPlayer ''b'' Human 10 10\<rparr>,
         \<lparr>attackTroops = 25, attacker = exPlayer ''c'' Human 10 10\<rparr>])). 0 < attackTroops a)
   \<and> (\<exists>pre m post.
        incomingAttacks (exOwner []
          [\<lparr>attackTroops = 10, attacker = exPlayer ''a'' Human 10 10\<rparr>,
           \<lparr>attackTroops = 25, attacker = exPlayer ''b'' Human 10 10\<rparr>,
           \<lparr>attackTroops = 25, attacker = exPlayer ''c'' Human 10 10\<rparr>]) = pre @ m # post
        \<and> (\<forall>x\<in>set pre. attackTroops x < attackTroops m)
        \<and> (\<forall>x\<in>set post. attackTroops x \<le> attackTroops m)
        \<and> checkIncomingAttacks exGame (exOwner []
          [\<lparr>attackTroops = 10, attacker = exPlayer ''a'' Human 10 10\<rparr>,
           \<lparr>attackTroops = 25, attacker = exPlayer ''b'' Human 10 10\<rparr>,
           \<lparr>attackTroops = 25, attacker = exPlayer ''c'' Human 10 10\<rparr>]) (exBehavior [])
          = (exBehavior [])\<lparr>enemy := Some (attacker m), enemyUpdated := Some (ticks exGame)\<rparr>)
   \<and> checkIncomingAttacks exGame (exOwner []
          [\<lparr>attackTroops = 10, attacker = exPlayer ''a'' Human 10 10\<rparr>,
           \<lparr>attackTroops = 25, attacker = exPlayer ''b'' Human 10 10\<rparr>,
           \<lparr>attackTroops = 25, attacker = exPlayer ''c'' Human 10 10\<rparr>]) (exBehavior [])
       = (exBehavior [])\<lparr>enemy := Some (exPlayer ''b'' Human 10 10), enemyUpdated := Some 7\<rparr>
   \<and> checkIncomingAttacks exGame (exOwner [] []) (exBehavior []) = exBehavior []"
proof -
  let ?p = "exOwner []
        [\<lparr>attackTroops = 10, attacker = exPlayer ''a'' Human 10 10\<rparr>,
         \<lparr>attackTroops = 25, attacker = exPlayer ''b'' Human 10 10\<rparr>,
         \<lparr>attackTroops = 25, attacker = exPlayer ''c'' Human 10 10\<rparr>]"
  have h: "\<exists>a\<in>set (incomingAttacks ?p). 0 < attackTroops a"
    by (simp add: exOwner_def)
  have e: "incomingAttacks (exOwner [] []) = []"
    by (simp add: exOwner_def)
  have v: "checkIncomingAttacks exGame ?p (exBehavior [])
       = (exBehavior [])\<lparr>enemy := Some (exPlayer ''b'' Human 10 10), enemyUpdated := Some 7\<rparr>"
    by (simp add: checkIncomingAttacks_def exOwner_def exGame_def setNewEnemy_def)
  show ?thesis
    using h e v checkIncomingAttacks_largest [of ?p exGame "exBehavior []"]
      checkIncomingAttacks_largest [of "exOwner [] []" exGame "exBehavior []"]
    by blast
qed

section \<open>The random neighbour walk\<close>

lemma qualifyingNeighbors_all_unfriendly:
  "\<forall>q\<in>set (fst (qualifyingNeighbors R p ns r)). \<not> isFriendly p q"
proof (induction ns arbitrary: r)
  case Nil
  then show ?case by simp
next
  case (Cons n rest)
  show ?case
  proof (cases n)
    case (IsPlayer x)
    then show ?thesis using Cons.IH
      by (auto split: prod.splits simp: split_beta)
  next
    case TerraNullius
    then show ?thesis using Cons.IH by simp
  qed
qed

lemma qualifyingNeighbors_not_friendly:
  "qualifyingNeighbors R p ns r = (qs, r') \<Longrightarrow> q \<in> set qs \<Longrightarrow> \<not> isFriendly p q"
  using qualifyingNeighbors_all_unfriendly [of R p ns r] by simp

lemma neighborWalk_last:
  "neighborWalk R g p ns b =
     (case qualifyingNeighbors R p ns (rng b) of
        (qs, r') \<Rightarrow>
          if qs = [] then b\<lparr>rng := r'\<rparr>
          else b\<lparr>enemy := Some (last qs), enemyUpdated := Some (ticks g), rng := r'\<rparr>)"
proof (induction R g p ns b rule: neighborWalk.induct)
  case (1 R g p b)
  then show ?case by simp
next
  case (2 R g p rest b)
  then show ?case by simp
next
  case (3 R g p neighbor rest b)
  then show ?case
    by (auto simp: setNewEnemy_def split: prod.splits)
qed

text \<open>
  Claim C4. The neighbour walk of \<open>selectRandomEnemy\<close> does not exit early: over the
  shuffled neighbours it leaves as enemy the last qualifying neighbour of the walk
  (a player, not friendly, and when of type \<open>FakeHuman\<close> not skipped by its trial),
  and leaves the enemy as it was when none qualifies. With no enemy set and
  sufficient troops, \<open>selectRandomEnemy\<close> then returns that last qualifying neighbour.
\<close>

theorem selectRandomEnemy_last_qualifying:
  "neighborWalk R g p ns b =
     (case qualifyingNeighbors R p ns (rng b) of
        (qs, r') \<Rightarrow>
          if qs = [] then b\<lparr>rng := r'\<rparr>
          else b\<lparr>enemy := Some (last qs), enemyUpdated := Some (ticks g), rng := r'\<rparr>)
   \<and> (enemy b = None \<and> hasSufficientTroops g p b
       \<and> shuffleArray R (neighbors p) (rng b) = (shuffled, r1)
       \<and> qualifyingNeighbors R p shuffled r1 = (qs, r2) \<and> qs \<noteq> [] \<longrightarrow>
       selectRandomEnemy R g p b =
         (Some (last qs),
          b\<lparr>enemy := Some (last qs), enemyUpdated := Some (ticks g), rng := r2\<rparr>))"
proof (intro conjI impI)
  show "neighborWalk R g p ns b =
     (case qualifyingNeighbors R p ns (rng b) of
        (qs, r') \<Rightarrow>
          if qs = [] then b\<lparr>rng := r'\<rparr>
          else b\<lparr>enemy := Some (last qs), enemyUpdated := Some (ticks g), rng := r'\<rparr>)"
    by (rule neighborWalk_last)
next
  assume a: "enemy b = None \<and> hasSufficientTroops g p b
       \<and> shuffleArray R (neighbors p) (rng b) = (shuffled, r1)
       \<and> qualifyingNeighbors R p shuffled r1 = (qs, r2) \<and> qs \<noteq> []"
  let ?b1 = "b\<lparr>enemy := Some (last qs), enemyUpdated := Some (ticks g), rng := r2\<rparr>"
  have walk: "neighborWalk R g p shuffled (b\<lparr>rng := r1\<rparr>) = ?b1"
    using a by (simp add: neighborWalk_last)
  have "last qs \<in> set qs" using a by simp
  with a have nf: "\<not> isFriendly p (last qs)"
    by (blast dest: qualifyingNeighbors_not_friendly)
  have "selectRandomEnemy R g p b = enemySanityCheck p ?b1"
    using a walk by (simp add: selectRandomEnemy_def Let_def)
  also have "\<dots> = (Some (last qs), ?b1)"
    using nf by (simp add: enemySanityCheck_result)
  finally show "selectRandomEnemy R g p b = (Some (last qs), ?b1)" .
qed

theorem selectRandomEnemy_last_qualifying_witness:
  "enemy (exBehavior [True, False]) = None
   \<and> hasSufficientTroops exGame
        (exOwner [IsPlayer (exPlayer ''a'' Bot 50 10), IsPlayer (exPlayer ''b'' FakeHuman 20 10),
                  IsPlayer (exPlayer ''c'' FakeHuman 20 10), TerraNullius,
                  IsPlayer (exPlayer ''Fd'' Human 20 10)] [])
        (exBehavior [True, False])
   \<and> qualifyingNeighbors exRandom
        (exOwner [IsPlayer (exPlayer ''a'' Bot 50 10), IsPlayer (exPlayer ''b'' FakeHuman 20 10),
                  IsPlayer (exPlayer ''c'' FakeHuman 20 10), TerraNullius,
                  IsPlayer (exPlayer ''Fd'' Human 20 10)] [])
        [IsPlayer (exPlayer ''Fd'' Human 20 10), TerraNullius,
         IsPlayer (exPlayer ''c'' FakeHuman 20 10), IsPlayer (exPlayer ''b'' FakeHuman 20 10),
         IsPlayer (exPlayer ''a'' Bot 50 10)]
        [True, False]
       = ([exPlayer ''b'' FakeHuman 20 10, exPlayer ''a'' Bot 50 10], [])
   \<and> selectRandomEnemy exRandom exGame
        (exOwner [IsPlayer (exPlayer ''a'' Bot 50 10), IsPlayer (exPlayer ''b'' FakeHuman 20 10),
                  IsPlayer (exPlayer ''c'' FakeHuman 20 10), TerraNullius,
                  IsPlayer (exPlayer ''Fd'' Human 20 10)] [])
        (exBehavior [True, False])
       = (Some (exPlayer ''a'' Bot 50 10),
          (exBehavior [])\<lparr>enemy := Some (exPlayer ''a'' Bot 50 10), enemyUpdated := Some 7\<rparr>)"
proof -
  let ?p = "exOwner [IsPlayer (exPlayer ''a'' Bot 50 10), IsPlayer (exPlayer ''b'' FakeHuman 20 10),
                  IsPlayer (exPlayer ''c'' FakeHuman 20 10), TerraNullius,
                  IsPlayer (exPlayer ''Fd'' Human 20 10)] []"
  let ?sh = "[IsPlayer (exPlayer ''Fd'' Human 20 10), TerraNullius,
         IsPlayer (exPlayer ''c'' FakeHuman 20 10), IsPlayer (exPlayer ''b'' FakeHuman 20 10),
         IsPlayer (exPlayer ''a'' Bot 50 10)]"
  let ?qs = "[exPlayer ''b'' FakeHuman 20 10, exPlayer ''a'' Bot 50 10]"
  have e: "enemy (exBehavior [True, False]) = None"
    by (simp add: exBehavior_def)
  have h: "hasSufficientTroops exGame ?p (exBehavior [True, False])"
    by (simp add: hasSufficientTroops_def exGame_def exOwner_def exBehavior_def divide_number_def)
  have s: "shuffleArray exRandom (neighbors ?p) (rng (exBehavior [True, False])) = (?sh, [True, False])"
    by (simp add: exRandom_def exOwner_def exBehavior_def)
  have q: "qualifyingNeighbors exRandom ?p ?sh [True, False] = (?qs, [])"
    by (simp add: exRandom_def exOwner_def exPlayer_def)
  have n: "?qs \<noteq> []" by simp
  from e h s q n
    selectRandomEnemy_last_qualifying
      [of exRandom exGame ?p "[]" "exBehavior [True, False]" ?sh "[True, False]" ?qs "[]"]
  show ?thesis
    by (simp add: exBehavior_def exGame_def)
qed

section \<open>The lowest-density bot\<close>

lemma less_number_irrefl: "\<not> less_number a a"
  by (cases a) simp_all

lemma less_number_asym: "less_number a b \<Longrightarrow> \<not> less_number b a"
  by (cases a; cases b) simp_all

lemma less_number_trans: "less_number a b \<Longrightarrow> less_number b c \<Longrightarrow> less_number a c"
  by (cases a; cases b; cases c) simp_all

text \<open>
  A value that is not below \<open>d\<close> is not below anything below \<open>d\<close> either, and
  differs from it.
\<close>

lemma not_less_number_below:
  "\<not> less_number a d \<Longrightarrow> less_number m d \<Longrightarrow> \<not> less_number a m \<and> a \<noteq> m"
  using less_number_trans by blast

lemma lowestDensityLoop_none:
  "\<forall>x\<in>set bots. \<not> less_number (density x) d \<Longrightarrow> lowestDensityLoop bots d c = (d, c)"
  by (induction bots) (simp_all add: Let_def)

lemma lowestDensityLoop_some:
  "\<exists>x\<in>set bots. less_number (density x) d \<Longrightarrow>
   \<exists>pre m post. bots = pre @ m # post
     \<and> lowestDensityLoop bots d c = (density m, Some m)
     \<and> less_number (density m) d
     \<and> (\<forall>x\<in>set pre. \<not> less_number (density x) (density m) \<and> density x \<noteq> density m)
     \<and> (\<forall>x\<in>set post. \<not> less_number (density x) (density m))"
proof (induction bots arbitrary: d c)
  case Nil
  then show ?case by simp
next
  case (Cons a rest)
  show ?case
  proof (cases "less_number (density a) d")
    case lt: True
    then have step: "lowestDensityLoop (a # rest) d c = lowestDensityLoop rest (density a) (Some a)"
      by (simp add: Let_def)
    show ?thesis
    proof (cases "\<exists>x\<in>set rest. less_number (density x) (density a)")
      case True
      from Cons.IH [OF this, of "Some a"] obtain pre m post where
        r: "rest = pre @ m # post"
        and l: "lowestDensityLoop rest (density a) (Some a) = (density m, Some m)"
        and g: "less_number (density m) (density a)"
        and b: "\<forall>x\<in>set pre. \<not> less_number (density x) (density m) \<and> density x \<noteq> density m"
        and f: "\<forall>x\<in>set post. \<not> less_number (density x) (density m)"
        by blast
      have "a # rest = (a # pre) @ m # post" using r by simp
      moreover have "lowestDensityLoop (a # rest) d c = (density m, Some m)"
        using step l by simp
      moreover have "less_number (density m) d"
        using g lt by (rule less_number_trans)
      moreover have "\<not> less_number (density a) (density m) \<and> density a \<noteq> density m"
        using g less_number_asym less_number_irrefl by metis
      then have "\<forall>x\<in>set (a # pre). \<not> less_number (density x) (density m) \<and> density x \<noteq> density m"
        using b by simp
      ultimately show ?thesis using f by blast
    next
      case False
      then have "lowestDensityLoop (a # rest) d c = (density a, Some a)"
        using step lowestDensityLoop_none by simp
      moreover have "a # rest = [] @ a # rest" by simp
      ultimately show ?thesis using lt False by (metis empty_iff empty_set)
    qed
  next
    case ge: False
    with Cons.prems have "\<exists>x\<in>set rest. less_number (density x) d" by auto
    from Cons.IH [OF this, of c] obtain pre m post where
      r: "rest = pre @ m # post"
      and l: "lowestDensityLoop rest d c = (density m, Some m)"
      and g: "less_number (density m) d"
      and b: "\<forall>x\<in>set pre. \<not> less_number (density x) (density m) \<and> density x \<noteq> density m"
      and f: "\<forall>x\<in>set post. \<not> less_number (density x) (density m)"
      by blast
    have "a # rest = (a # pre) @ m # post" using r by simp
    moreover have "lowestDensityLoop (a # rest) d c = (density m, Some m)"
      using ge l by (simp add: Let_def)
    moreover have "\<not> less_number (density a) (density m) \<and> density a \<noteq> density m"
      using ge g by (rule not_less_number_below)
    then have "\<forall>x\<in>set (a # pre). \<not> less_number (density x) (density m) \<and> density x \<noteq> density m"
      using b by simp
    ultimately show ?thesis using g f by blast
  qed
qed

lemma density_owning_tiles: "0 < numTilesOwned x \<Longrightarrow> less_number (density x) Infinity"
  by (simp add: density_def divide_number_def)

lemma density_zero_tiles:
  "numTilesOwned z = 0 \<Longrightarrow> 0 \<le> troops z \<Longrightarrow>
   density z = (if troops z = 0 then NaN else Infinity)"
  by (simp add: density_def divide_number_def)

lemma bot_step_nonempty:
  "(if length bots > 0
    then (case snd (lowestDensityLoop bots Infinity None) of
            None \<Rightarrow> b
          | Some lowestDensityBot \<Rightarrow> setNewEnemy g (Some lowestDensityBot) b)
    else b)
   = (case snd (lowestDensityLoop bots Infinity None) of
        None \<Rightarrow> b
      | Some lowestDensityBot \<Rightarrow> setNewEnemy g (Some lowestDensityBot) b)"
  by (cases bots) simp_all

lemma selectEnemy_after_bots:
  assumes "enemy b = None" and "hasSufficientTroops g p b"
  shows "selectEnemy E g p b =
     selectEnemyFallback E g p
       (case snd (lowestDensityLoop (adjacentBots p) Infinity None) of
          None \<Rightarrow> b
        | Some lowestDensityBot \<Rightarrow> setNewEnemy g (Some lowestDensityBot) b)"
proof -
  have "selectEnemy E g p b =
     selectEnemyFallback E g p
       (if length (adjacentBots p) > 0
        then (case snd (lowestDensityLoop (adjacentBots p) Infinity None) of
                None \<Rightarrow> b
              | Some lowestDensityBot \<Rightarrow> setNewEnemy g (Some lowestDensityBot) b)
        else b)"
    unfolding selectEnemy_def selectEnemyFallback_def adjacentBots_def Let_def
    using assms by (simp only: simp_thms if_True if_False)
  then show ?thesis by (simp only: bot_step_nonempty)
qed

lemma selectEnemyFallback_enemy_set:
  "enemy b1 = Some m \<Longrightarrow> selectEnemyFallback E g p b1 = enemySanityCheck p b1"
  by (simp add: selectEnemyFallback_def)


lemma lowestDensityLoop_minimum:
  assumes "\<exists>x\<in>set bots. 0 < numTilesOwned x"
  shows "\<exists>pre m post. bots = pre @ m # post
     \<and> snd (lowestDensityLoop bots Infinity None) = Some m
     \<and> (\<forall>x\<in>set bots. \<not> less_number (density x) (density m))
     \<and> (\<forall>x\<in>set pre. density x \<noteq> density m)"
proof -
  from assms have "\<exists>x\<in>set bots. less_number (density x) Infinity"
    using density_owning_tiles by blast
  from lowestDensityLoop_some [OF this, of None] obtain pre m post where
    r: "bots = pre @ m # post"
    and l: "lowestDensityLoop bots Infinity None = (density m, Some m)"
    and b: "\<forall>x\<in>set pre. \<not> less_number (density x) (density m) \<and> density x \<noteq> density m"
    and f: "\<forall>x\<in>set post. \<not> less_number (density x) (density m)"
    by blast
  have "\<forall>x\<in>set bots. \<not> less_number (density x) (density m)"
    using r b f less_number_irrefl by auto
  with r l b show ?thesis by fastforce
qed

text \<open>
  Two calls with no enemy set, sufficient troops and an adjacent bot, after which no
  enemy is set. In the first the bot of lowest density (2, against 5) is friendly:
  it is set as enemy and the final check clears it. In the second the only adjacent
  bot owns no tile: its density is \<open>Infinity\<close>, which is not below the initial
  \<open>Infinity\<close>, and no bot is chosen.
\<close>

theorem selectEnemy_lowest_density_counterexample:
  "enemy (exBehavior []) = None
   \<and> hasSufficientTroops exGame
        (exOwner [IsPlayer (exPlayer ''a'' Bot 50 10), IsPlayer (exPlayer ''Fb'' Bot 20 10)] [])
        (exBehavior [])
   \<and> adjacentBots (exOwner [IsPlayer (exPlayer ''a'' Bot 50 10), IsPlayer (exPlayer ''Fb'' Bot 20 10)] [])
       = [exPlayer ''a'' Bot 50 10, exPlayer ''Fb'' Bot 20 10]
   \<and> density (exPlayer ''a'' Bot 50 10) = Num 5 \<and> density (exPlayer ''Fb'' Bot 20 10) = Num 2
   \<and> selectEnemy exEnum exGame
        (exOwner [IsPlayer (exPlayer ''a'' Bot 50 10), IsPlayer (exPlayer ''Fb'' Bot 20 10)] [])
        (exBehavior [])
       = (None, (exBehavior [])\<lparr>enemyUpdated := Some 7\<rparr>)
   \<and> adjacentBots (exOwner [IsPlayer (exPlayer ''z'' Bot 5 0)] []) = [exPlayer ''z'' Bot 5 0]
   \<and> selectEnemy exEnum exGame (exOwner [IsPlayer (exPlayer ''z'' Bot 5 0)] []) (exBehavior [])
       = (None, exBehavior [])"
  by (simp add: exOwner_def exBehavior_def exPlayer_def exGame_def exEnum_def adjacentBots_def
      selectEnemy_def hasSufficientTroops_def divide_number_def checkIncomingAttacks_def
      density_def setNewEnemy_def enemySanityCheck_def clearEnemy_def Let_def)

text \<open>
  Claim C3, amended. In a call of \<open>selectEnemy\<close> with no enemy set, sufficient troops
  and at least one adjacent bot that owns a tile, the bot step sets as enemy the
  adjacent bot \<open>m\<close> of minimum density (no adjacent bot has a lower one), the first
  in enumeration order among those of that density. \<open>selectEnemy\<close> returns \<open>m\<close>, set at
  the current tick, unless \<open>m\<close> is friendly to the controlled player: then the final
  check clears the enemy and \<open>null\<close> is returned.
\<close>

theorem selectEnemy_lowest_density:
  assumes "enemy b = None" and "hasSufficientTroops g p b"
    and "\<exists>x\<in>set (adjacentBots p). 0 < numTilesOwned x"
  shows "\<exists>pre m post. adjacentBots p = pre @ m # post
     \<and> (\<forall>x\<in>set (adjacentBots p). \<not> less_number (density x) (density m))
     \<and> (\<forall>x\<in>set pre. density x \<noteq> density m)
     \<and> selectEnemy E g p b =
         (if isFriendly p m then (None, b\<lparr>enemy := None, enemyUpdated := Some (ticks g)\<rparr>)
          else (Some m, b\<lparr>enemy := Some m, enemyUpdated := Some (ticks g)\<rparr>))"
proof -
  from lowestDensityLoop_minimum [OF assms(3)] obtain pre m post where
    r: "adjacentBots p = pre @ m # post"
    and l: "snd (lowestDensityLoop (adjacentBots p) Infinity None) = Some m"
    and mn: "\<forall>x\<in>set (adjacentBots p). \<not> less_number (density x) (density m)"
    and fs: "\<forall>x\<in>set pre. density x \<noteq> density m"
    by blast
  let ?b1 = "setNewEnemy g (Some m) b"
  have "selectEnemy E g p b = selectEnemyFallback E g p ?b1"
    using selectEnemy_after_bots [OF assms(1,2), of E] l by simp
  also have "\<dots> = enemySanityCheck p ?b1"
    by (rule selectEnemyFallback_enemy_set [of _ m]) (simp add: setNewEnemy_def)
  also have "\<dots> = (if isFriendly p m then (None, b\<lparr>enemy := None, enemyUpdated := Some (ticks g)\<rparr>)
          else (Some m, b\<lparr>enemy := Some m, enemyUpdated := Some (ticks g)\<rparr>))"
    by (simp add: enemySanityCheck_result setNewEnemy_def)
  finally show ?thesis using r mn fs by blast
qed


theorem selectEnemy_lowest_density_witness:
  "enemy (exBehavior []) = None
   \<and> hasSufficientTroops exGame
        (exOwner [IsPlayer (exPlayer ''a'' Bot 50 10), TerraNullius, IsPlayer (exPlayer ''h'' Human 1 10),
                  IsPlayer (exPlayer ''b'' Bot 20 10), IsPlayer (exPlayer ''c'' Bot 40 20)] [])
        (exBehavior [])
   \<and> (\<exists>x\<in>set (adjacentBots
        (exOwner [IsPlayer (exPlayer ''a'' Bot 50 10), TerraNullius, IsPlayer (exPlayer ''h'' Human 1 10),
                  IsPlayer (exPlayer ''b'' Bot 20 10), IsPlayer (exPlayer ''c'' Bot 40 20)] [])).
          0 < numTilesOwned x)
   \<and> (\<exists>pre m post.
        adjacentBots
          (exOwner [IsPlayer (exPlayer ''a'' Bot 50 10), TerraNullius, IsPlayer (exPlayer ''h'' Human 1 10),
                    IsPlayer (exPlayer ''b'' Bot 20 10), IsPlayer (exPlayer ''c'' Bot 40 20)] [])
          = pre @ m # post
        \<and> (\<forall>x\<in>set pre. density x \<noteq> density m)
        \<and> selectEnemy exEnum exGame
          (exOwner [IsPlayer (exPlayer ''a'' Bot 50 10), TerraNullius, IsPlayer (exPlayer ''h'' Human 1 10),
                    IsPlayer (exPlayer ''b'' Bot 20 10), IsPlayer (exPlayer ''c'' Bot 40 20)] [])
          (exBehavior [])
          = (if isFriendly
                 (exOwner [IsPlayer (exPlayer ''a'' Bot 50 10), TerraNullius,
                           IsPlayer (exPlayer ''h'' Human 1 10),
                           IsPlayer (exPlayer ''b'' Bot 20 10), IsPlayer (exPlayer ''c'' Bot 40 20)] []) m
             then (None, (exBehavior [])\<lparr>enemy := None, enemyUpdated := Some (ticks exGame)\<rparr>)
             else (Some m, (exBehavior [])\<lparr>enemy := Some m, enemyUpdated := Some (ticks exGame)\<rparr>)))
   \<and> density (exPlayer ''a'' Bot 50 10) = Num 5
   \<and> density (exPlayer ''b'' Bot 20 10) = Num 2
   \<and> density (exPlayer ''c'' Bot 40 20) = Num 2
   \<and> selectEnemy exEnum exGame
        (exOwner [IsPlayer (exPlayer ''a'' Bot 50 10), TerraNullius, IsPlayer (exPlayer ''h'' Human 1 10),
                  IsPlayer (exPlayer ''b'' Bot 20 10), IsPlayer (exPlayer ''c'' Bot 40 20)] [])
        (exBehavior [])
       = (Some (exPlayer ''b'' Bot 20 10),
          (exBehavior [])\<lparr>enemy := Some (exPlayer ''b'' Bot 20 10), enemyUpdated := Some 7\<rparr>)"
proof -
  let ?p = "exOwner [IsPlayer (exPlayer ''a'' Bot 50 10), TerraNullius, IsPlayer (exPlayer ''h'' Human 1 10),
                  IsPlayer (exPlayer ''b'' Bot 20 10), IsPlayer (exPlayer ''c'' Bot 40 20)] []"
  have e: "enemy (exBehavior []) = None"
    by (simp add: exBehavior_def)
  have h: "hasSufficientTroops exGame ?p (exBehavior [])"
    by (simp add: hasSufficientTroops_def exGame_def exOwner_def exBehavior_def divide_number_def)
  have t: "\<exists>x\<in>set (adjacentBots ?p). 0 < numTilesOwned x"
    by (simp add: adjacentBots_def exOwner_def exPlayer_def)
  have d: "density (exPlayer ''a'' Bot 50 10) = Num 5 \<and> density (exPlayer ''b'' Bot 20 10) = Num 2
      \<and> density (exPlayer ''c'' Bot 40 20) = Num 2"
    by (simp add: density_def divide_number_def exPlayer_def)
  have v: "selectEnemy exEnum exGame ?p (exBehavior [])
       = (Some (exPlayer ''b'' Bot 20 10),
          (exBehavior [])\<lparr>enemy := Some (exPlayer ''b'' Bot 20 10), enemyUpdated := Some 7\<rparr>)"
    by (simp add: exOwner_def exBehavior_def exPlayer_def exGame_def exEnum_def
      selectEnemy_def hasSufficientTroops_def divide_number_def
      density_def setNewEnemy_def enemySanityCheck_def clearEnemy_def Let_def)
  from selectEnemy_lowest_density [OF e h t, of exEnum]
  have "\<exists>pre m post. adjacentBots ?p = pre @ m # post
        \<and> (\<forall>x\<in>set pre. density x \<noteq> density m)
        \<and> selectEnemy exEnum exGame ?p (exBehavior [])
          = (if isFriendly ?p m
             then (None, (exBehavior [])\<lparr>enemy := None, enemyUpdated := Some (ticks exGame)\<rparr>)
             else (Some m, (exBehavior [])\<lparr>enemy := Some m, enemyUpdated := Some (ticks exGame)\<rparr>))"
    by blast
  with e h t d v show ?thesis by blast
qed

section \<open>Bots that own no tile\<close>

text \<open>
  Claim C9. A troop count is never negative. Dividing it by a zero tile count raises
  nothing and gives \<open>Infinity\<close> (positive troops: maximally dense) or \<open>NaN\<close> (no
  troops: out of every comparison), and neither is below the initial \<open>Infinity\<close>. So
  a bot with no tile is never the bot the density loop selects, and when every
  adjacent bot owns no tile the loop selects none and \<open>selectEnemy\<close> goes on, from the
  unchanged controller, to the retaliation step.
\<close>

theorem zero_tile_bot_never_lowest:
  "(numTilesOwned z = 0 \<and> 0 \<le> troops z \<longrightarrow>
      density z = (if troops z = 0 then NaN else Infinity))
   \<and> (snd (lowestDensityLoop bots Infinity None) = Some m \<longrightarrow>
      \<not> (numTilesOwned m = 0 \<and> 0 \<le> troops m))
   \<and> ((\<forall>x\<in>set (adjacentBots p). numTilesOwned x = 0 \<and> 0 \<le> troops x)
       \<and> enemy b = None \<and> hasSufficientTroops g p b \<longrightarrow>
      snd (lowestDensityLoop (adjacentBots p) Infinity None) = None
      \<and> selectEnemy E g p b = selectEnemyFallback E g p b)"
proof (intro conjI impI)
  assume "numTilesOwned z = 0 \<and> 0 \<le> troops z"
  then show "density z = (if troops z = 0 then NaN else Infinity)"
    using density_zero_tiles by blast
next
  assume s: "snd (lowestDensityLoop bots Infinity None) = Some m"
  show "\<not> (numTilesOwned m = 0 \<and> 0 \<le> troops m)"
  proof (cases "\<exists>x\<in>set bots. less_number (density x) Infinity")
    case True
    from lowestDensityLoop_some [OF this, of None] s
    have "less_number (density m) Infinity" by auto
    then show ?thesis
      using density_zero_tiles [of m] by (auto split: if_splits)
  next
    case False
    then have "lowestDensityLoop bots Infinity None = (Infinity, None)"
      using lowestDensityLoop_none by blast
    with s show ?thesis by simp
  qed
next
  assume a: "(\<forall>x\<in>set (adjacentBots p). numTilesOwned x = 0 \<and> 0 \<le> troops x)
       \<and> enemy b = None \<and> hasSufficientTroops g p b"
  have "\<forall>x\<in>set (adjacentBots p). \<not> less_number (density x) Infinity"
  proof
    fix x assume "x \<in> set (adjacentBots p)"
    with a have "density x = (if troops x = 0 then NaN else Infinity)"
      using density_zero_tiles by blast
    then show "\<not> less_number (density x) Infinity" by (simp split: if_splits)
  qed
  then have n: "lowestDensityLoop (adjacentBots p) Infinity None = (Infinity, None)"
    by (rule lowestDensityLoop_none)
  then show "snd (lowestDensityLoop (adjacentBots p) Infinity None) = None" by simp
  show "selectEnemy E g p b = selectEnemyFallback E g p b"
    using a n selectEnemy_after_bots [of b g p E] by simp
qed

theorem zero_tile_bot_never_lowest_witness:
  "adjacentBots (exOwner [IsPlayer (exPlayer ''z'' Bot 5 0), IsPlayer (exPlayer ''y'' Bot 0 0)]
        [\<lparr>attackTroops = 10, attacker = exPlayer ''a'' Human 10 10\<rparr>])
       = [exPlayer ''z'' Bot 5 0, exPlayer ''y'' Bot 0 0]
   \<and> numTilesOwned (exPlayer ''z'' Bot 5 0) = 0 \<and> 0 \<le> troops (exPlayer ''z'' Bot 5 0)
   \<and> numTilesOwned (exPlayer ''y'' Bot 0 0) = 0 \<and> 0 \<le> troops (exPlayer ''y'' Bot 0 0)
   \<and> enemy (exBehavior []) = None
   \<and> hasSufficientTroops exGame
        (exOwner [IsPlayer (exPlayer ''z'' Bot 5 0), IsPlayer (exPlayer ''y'' Bot 0 0)]
          [\<lparr>attackTroops = 10, attacker = exPlayer ''a'' Human 10 10\<rparr>]) (exBehavior [])
   \<and> density (exPlayer ''z'' Bot 5 0) = Infinity
   \<and> density (exPlayer ''y'' Bot 0 0) = NaN
   \<and> snd (lowestDensityLoop [exPlayer ''z'' Bot 5 0, exPlayer ''b'' Bot 20 10] Infinity None)
       = Some (exPlayer ''b'' Bot 20 10)
   \<and> \<not> (numTilesOwned (exPlayer ''b'' Bot 20 10) = 0 \<and> 0 \<le> troops (exPlayer ''b'' Bot 20 10))
   \<and> snd (lowestDensityLoop
        (adjacentBots (exOwner [IsPlayer (exPlayer ''z'' Bot 5 0), IsPlayer (exPlayer ''y'' Bot 0 0)]
          [\<lparr>attackTroops = 10, attacker = exPlayer ''a'' Human 10 10\<rparr>])) Infinity None) = None
   \<and> selectEnemy exEnum exGame
        (exOwner [IsPlayer (exPlayer ''z'' Bot 5 0), IsPlayer (exPlayer ''y'' Bot 0 0)]
          [\<lparr>attackTroops = 10, attacker = exPlayer ''a'' Human 10 10\<rparr>]) (exBehavior [])
       = (Some (exPlayer ''a'' Human 10 10),
          (exBehavior [])\<lparr>enemy := Some (exPlayer ''a'' Human 10 10), enemyUpdated := Some 7\<rparr>)"
proof -
  let ?p = "exOwner [IsPlayer (exPlayer ''z'' Bot 5 0), IsPlayer (exPlayer ''y'' Bot 0 0)]
          [\<lparr>attackTroops = 10, attacker = exPlayer ''a'' Human 10 10\<rparr>]"
  have z: "\<forall>x\<in>set (adjacentBots ?p). numTilesOwned x = 0 \<and> 0 \<le> troops x"
    by (simp add: adjacentBots_def exOwner_def exPlayer_def)
  have e: "enemy (exBehavior []) = None"
    by (simp add: exBehavior_def)
  have h: "hasSufficientTroops exGame ?p (exBehavior [])"
    by (simp add: hasSufficientTroops_def exGame_def exOwner_def exBehavior_def divide_number_def)
  have f: "selectEnemyFallback exEnum exGame ?p (exBehavior [])
       = (Some (exPlayer ''a'' Human 10 10),
          (exBehavior [])\<lparr>enemy := Some (exPlayer ''a'' Human 10 10), enemyUpdated := Some 7\<rparr>)"
    by (simp add: selectEnemyFallback_def checkIncomingAttacks_def exOwner_def exBehavior_def
        exPlayer_def exGame_def setNewEnemy_def enemySanityCheck_def clearEnemy_def Let_def)
  have y: "numTilesOwned (exPlayer ''y'' Bot 0 0) = 0 \<and> 0 \<le> troops (exPlayer ''y'' Bot 0 0)"
    and x: "numTilesOwned (exPlayer ''z'' Bot 5 0) = 0 \<and> 0 \<le> troops (exPlayer ''z'' Bot 5 0)"
    and t: "troops (exPlayer ''y'' Bot 0 0) = 0" "troops (exPlayer ''z'' Bot 5 0) \<noteq> 0"
    by (simp_all add: exPlayer_def)
  have s: "snd (lowestDensityLoop [exPlayer ''z'' Bot 5 0, exPlayer ''b'' Bot 20 10] Infinity None)
       = Some (exPlayer ''b'' Bot 20 10)"
    by (simp add: density_def divide_number_def exPlayer_def)
  have l: "adjacentBots ?p = [exPlayer ''z'' Bot 5 0, exPlayer ''y'' Bot 0 0]"
    by (simp add: adjacentBots_def exOwner_def exPlayer_def)
  show ?thesis
    using z l e h f y x t s
      zero_tile_bot_never_lowest [of "exPlayer ''z'' Bot 5 0"
        "[exPlayer ''z'' Bot 5 0, exPlayer ''b'' Bot 20 10]" "exPlayer ''b'' Bot 20 10" ?p
        "exBehavior []" exGame exEnum]
      zero_tile_bot_never_lowest [of "exPlayer ''z'' Bot 5 0" "[]" "exPlayer ''z'' Bot 5 0" ?p
        "exBehavior []" exGame exEnum]
      zero_tile_bot_never_lowest [of "exPlayer ''y'' Bot 0 0" "[]" "exPlayer ''z'' Bot 5 0" ?p
        "exBehavior []" exGame exEnum]
    by simp
qed

section \<open>Attack issuance\<close>

lemma pow2_pos: "0 < pow2 e"
  by (simp add: pow2_def)

lemma roundHalfEven_nonneg: "0 \<le> y \<Longrightarrow> 0 \<le> roundHalfEven y"
  by (simp add: roundHalfEven_def Let_def)

lemma round64_nonpos: "x \<le> 0 \<Longrightarrow> less_number (round64 x) (Num 1)"
proof (cases "x = 0")
  case True
  then show ?thesis by (simp add: round64_def)
next
  case False
  assume "x \<le> 0"
  with False have neg: "x < 0" by simp
  define q where "q = pow2 (max (floorLog2 \<bar>x\<bar>) (- 1022) - 52)"
  define m where "m = of_int (roundHalfEven (\<bar>x\<bar> / q)) * q"
  have "0 < q" by (simp add: q_def pow2_pos)
  then have "0 \<le> \<bar>x\<bar> / q" by simp
  then have "0 \<le> roundHalfEven (\<bar>x\<bar> / q)" by (rule roundHalfEven_nonneg)
  with \<open>0 < q\<close> have m: "0 \<le> m" by (simp add: m_def)
  have "round64 x = (if pow2 1024 \<le> m then NegInfinity else Num (- m))"
    using False neg by (simp add: round64_def Let_def q_def m_def)
  with m show ?thesis by simp
qed

text \<open>
  Evaluating \<open>round64\<close> at a given rational: the exponent, the spacing and the
  rounded significand are checked one by one.
\<close>

lemma round64_eval:
  assumes "x \<noteq> 0"
    and "floorLog2 \<bar>x\<bar> = k"
    and "max k (- 1022) = e"
    and "pow2 (e - 52) = q"
    and "roundHalfEven (\<bar>x\<bar> / q) = n"
    and "of_int n * q < pow2 1024"
    and "(if 0 < x then of_int n * q else - (of_int n * q)) = y"
  shows "round64 x = Num y"
  using assms unfolding round64_def Let_def by (simp only: if_False not_le [symmetric] simp_thms)

lemma floor_numeral_quotient: "\<lfloor>numeral a / numeral b :: rat\<rfloor> = numeral a div numeral b"
  by (metis floor_divide_of_int_eq of_int_numeral)

lemma ceiling_numeral_quotient: "\<lceil>numeral a / numeral b :: rat\<rceil> = - (- numeral a div numeral b)"
  by (metis ceiling_divide_eq_div of_int_numeral)

lemmas round64_simps = floorLog2_def bitLength.simps pow2_def roundHalfEven_def Let_def max_def
  floor_numeral_quotient ceiling_numeral_quotient

lemma round64_1: "round64 1 = Num 1"
  by (rule round64_eval [where k = 0 and e = 0 and q = "1 / 2 ^ 52" and n = "2 ^ 52"])
     (simp_all add: round64_simps)

lemma sendAttack_unfold:
  "sendAttack g p b target =
     (if (case target of IsPlayer t \<Rightarrow> isFriendly p t | TerraNullius \<Rightarrow> False) then g
      else if less_number
               (sub_number (round64 (troops p))
                  (reserveFloor g p (case target of IsPlayer t \<Rightarrow> reserveRatio b
                                                   | TerraNullius \<Rightarrow> expandRatio b)))
               (Num 1)
      then g
      else g\<lparr>executions := executions g @
             [AttackExecution
                (sub_number (round64 (troops p))
                   (reserveFloor g p (case target of IsPlayer t \<Rightarrow> reserveRatio b
                                                    | TerraNullius \<Rightarrow> expandRatio b)))
                (playerID p)
                (case target of IsPlayer t \<Rightarrow> playerID t | TerraNullius \<Rightarrow> terraNulliusID g)]\<rparr>)"
  by (simp add: sendAttack_def reserveFloor_def addExecution_def Let_def)

lemma floor_covers_troops:
  "greater_eq_number fl (Num c) \<Longrightarrow> less_number (sub_number (Num c) fl) (Num 1)"
proof (cases fl)
  case (Num f)
  assume "greater_eq_number fl (Num c)"
  with Num have "c - f \<le> 0" by simp
  then show ?thesis using Num by (simp add: round64_nonpos)
qed simp_all

text \<open>
  The doubles of the examples: \<open>0.55\<close> is \<open>2476979795053773 / 2 ^ 52\<close>, \<open>0.1\<close> is
  \<open>3602879701896397 / 2 ^ 55\<close>, and \<open>100 * 0.55\<close> is \<open>55.00000000000001\<close>, that is
  \<open>55 + 2 ^ - 47\<close>.
\<close>

lemma round64_100: "round64 100 = Num 100"
  by (rule round64_eval [where k = "6" and e = "6" and q = "1 / 2 ^ 46" and n = 7036874417766400])
     (simp_all add: round64_simps)

lemma round64_11_20: "round64 (11 / 20) = Num (2476979795053773 / 4503599627370496)"
  by (rule round64_eval [where k = "- 1" and e = "- 1" and q = "1 / 2 ^ 53" and n = 4953959590107546])
     (simp_all add: round64_simps)

lemma round64_floor55: "round64 (61924494876344325 / 1125899906842624) = Num (7740561859543041 / 140737488355328)"
  by (rule round64_eval [where k = "5" and e = "5" and q = "1 / 2 ^ 47" and n = 7740561859543041])
     (simp_all add: round64_simps)

lemma round64_56: "round64 56 = Num 56"
  by (rule round64_eval [where k = "5" and e = "5" and q = "1 / 2 ^ 47" and n = 7881299347898368])
     (simp_all add: round64_simps)

lemma round64_56_minus_floor: "round64 (140737488355327 / 140737488355328) = Num (140737488355327 / 140737488355328)"
  by (rule round64_eval [where k = "- 1" and e = "- 1" and q = "1 / 2 ^ 53" and n = 9007199254740928])
     (simp_all add: round64_simps)

lemma round64_10: "round64 10 = Num 10"
  by (rule round64_eval [where k = "3" and e = "3" and q = "1 / 2 ^ 49" and n = 5629499534213120])
     (simp_all add: round64_simps)

lemma round64_double_0_1: "round64 (3602879701896397 / 36028797018963968) = Num (3602879701896397 / 36028797018963968)"
  by (rule round64_eval [where k = "- 4" and e = "- 4" and q = "1 / 2 ^ 56" and n = 7205759403792794])
     (simp_all add: round64_simps)

lemma round64_10_times_0_1: "round64 (18014398509481985 / 18014398509481984) = Num 1"
  by (rule round64_eval [where k = "0" and e = "0" and q = "1 / 2 ^ 52" and n = 4503599627370496])
     (simp_all add: round64_simps)

lemma round64_2: "round64 2 = Num 2"
  by (rule round64_eval [where k = "1" and e = "1" and q = "1 / 2 ^ 51" and n = 4503599627370496])
     (simp_all add: round64_simps)

lemma round64_80: "round64 80 = Num 80"
  by (rule round64_eval [where k = "6" and e = "6" and q = "1 / 2 ^ 46" and n = 5629499534213120])
     (simp_all add: round64_simps)

lemma round64_80_minus_floor: "round64 (3518437208883199 / 140737488355328) = Num (3518437208883199 / 140737488355328)"
  by (rule round64_eval [where k = "4" and e = "4" and q = "1 / 2 ^ 48" and n = 7036874417766398])
     (simp_all add: round64_simps)

lemma round64_100_times_0_1: "round64 (90071992547409925 / 9007199254740992) = Num 10"
  by (rule round64_eval [where k = "3" and e = "3" and q = "1 / 2 ^ 49" and n = 5629499534213120])
     (simp_all add: round64_simps)

lemma round64_70: "round64 70 = Num 70"
  by (rule round64_eval [where k = "6" and e = "6" and q = "1 / 2 ^ 46" and n = 4925812092436480])
     (simp_all add: round64_simps)

lemma round64_55: "round64 55 = Num 55"
  by (rule round64_eval [where k = "5" and e = "5" and q = "1 / 2 ^ 47" and n = 7740561859543040])
     (simp_all add: round64_simps)

lemma round64_floor_plus_1: "round64 (7881299347898369 / 140737488355328) = Num (7881299347898369 / 140737488355328)"
  by (rule round64_eval [where k = "5" and e = "5" and q = "1 / 2 ^ 47" and n = 7881299347898369])
     (simp_all add: round64_simps)

lemma round64_11: "round64 11 = Num 11"
  by (rule round64_eval [where k = "3" and e = "3" and q = "1 / 2 ^ 49" and n = 6192449487634432])
     (simp_all add: round64_simps)

lemma round64_1_10: "round64 (1 / 10) = Num (3602879701896397 / 36028797018963968)"
  by (rule round64_eval [where k = "- 4" and e = "- 4" and q = "1 / 2 ^ 56" and n = 7205759403792794])
     (simp_all add: round64_simps)

lemma exFloor_55:
  "reserveFloor exGame (exOwner [] []\<lparr>troops := c\<rparr>) (11 / 20)
     = Num (7740561859543041 / 140737488355328)"
  by (simp add: reserveFloor_def exGame_def exOwner_def round64_100 round64_11_20 round64_floor55)

lemma exFloor_01:
  "reserveFloor exGame (exOwner [] []\<lparr>troops := c\<rparr>) (1 / 10) = Num 10"
  by (simp add: reserveFloor_def exGame_def exOwner_def round64_100 round64_double_0_1
      round64_1_10 round64_100_times_0_1)

text \<open>
  Read with exact products and differences, claim C8 fails on the code. With a
  capacity of 100, a reserve ratio of 0.55 (\<open>11 / 20\<close>) and 56 troops the exact floor
  is 55 and the troops are the floor plus 1, yet nothing is emitted: the floor
  computed is \<open>55.00000000000001\<close> and the difference is below 1. With a capacity of 10, the
  double \<open>0.1\<close> as expand ratio and 2 troops, the exact difference is below 1, yet an
  intent of 1 troop is emitted: the floor computed is 1.
\<close>

theorem sendAttack_exact_floor_counterexample:
  "maxTroops exGame (playerID (exOwner [] []\<lparr>troops := 56\<rparr>))
       * reserveRatio ((exBehavior [])\<lparr>reserveRatio := 11 / 20\<rparr>) + 1
     = troops (exOwner [] []\<lparr>troops := 56\<rparr>)
   \<and> \<not> isFriendly (exOwner [] []\<lparr>troops := 56\<rparr>) (exPlayer ''a'' Human 10 10)
   \<and> sendAttack exGame (exOwner [] []\<lparr>troops := 56\<rparr>)
         ((exBehavior [])\<lparr>reserveRatio := 11 / 20\<rparr>) (IsPlayer (exPlayer ''a'' Human 10 10))
       = exGame
   \<and> round64 (3602879701896397 / 36028797018963968)
       = Num (3602879701896397 / 36028797018963968)
   \<and> troops (exOwner [] []\<lparr>troops := 2\<rparr>)
         - maxTroops (exGame\<lparr>maxTroops := (\<lambda>i. 10)\<rparr>) (playerID (exOwner [] []\<lparr>troops := 2\<rparr>))
           * expandRatio ((exBehavior [])\<lparr>expandRatio := 3602879701896397 / 36028797018963968\<rparr>)
       < 1
   \<and> sendAttack (exGame\<lparr>maxTroops := (\<lambda>i. 10)\<rparr>) (exOwner [] []\<lparr>troops := 2\<rparr>)
         ((exBehavior [])\<lparr>expandRatio := 3602879701896397 / 36028797018963968\<rparr>) TerraNullius
       = exGame\<lparr>maxTroops := (\<lambda>i. 10), executions := [AttackExecution (Num 1) ''me'' ''terra'']\<rparr>"
proof -
  have a: "sendAttack exGame (exOwner [] []\<lparr>troops := 56\<rparr>)
         ((exBehavior [])\<lparr>reserveRatio := 11 / 20\<rparr>) (IsPlayer (exPlayer ''a'' Human 10 10))
       = exGame"
    by (simp add: sendAttack_def Let_def exGame_def exOwner_def exBehavior_def exPlayer_def
        round64_100 round64_11_20 round64_floor55 round64_56 round64_56_minus_floor)
  have b: "sendAttack (exGame\<lparr>maxTroops := (\<lambda>i. 10)\<rparr>) (exOwner [] []\<lparr>troops := 2\<rparr>)
         ((exBehavior [])\<lparr>expandRatio := 3602879701896397 / 36028797018963968\<rparr>) TerraNullius
       = exGame\<lparr>maxTroops := (\<lambda>i. 10), executions := [AttackExecution (Num 1) ''me'' ''terra'']\<rparr>"
    by (simp add: sendAttack_def addExecution_def Let_def exGame_def exOwner_def exBehavior_def
        round64_10 round64_double_0_1 round64_10_times_0_1 round64_2 round64_1)
  show ?thesis
    using a b by (simp add: exGame_def exOwner_def exBehavior_def exPlayer_def round64_double_0_1)
qed

text \<open>
  Claim C8, amended. \<open>sendAttack\<close> emits nothing against a friendly player.
  Otherwise the reserve floor is the binary64 product of \<open>maxTroops\<close> and
  \<open>reserveRatio\<close> (a player) or \<open>expandRatio\<close> (unclaimed territory), and the attacking
  troops are the binary64 difference of the player's troops and that floor: when it
  is less than 1 nothing is emitted (in particular when the floor computed is at
  least the current troops), otherwise exactly one attack intent with exactly that
  number is added; when the troops are exactly the floor computed plus 1, the intent
  carries exactly 1 troop.
\<close>

theorem sendAttack_binary64:
  "(isFriendly p t \<longrightarrow> sendAttack g p b (IsPlayer t) = g)
   \<and> (\<not> isFriendly p t \<longrightarrow>
        sendAttack g p b (IsPlayer t) =
          (if less_number
                (sub_number (round64 (troops p)) (reserveFloor g p (reserveRatio b))) (Num 1)
           then g
           else g\<lparr>executions := executions g @
                  [AttackExecution
                     (sub_number (round64 (troops p)) (reserveFloor g p (reserveRatio b)))
                     (playerID p) (playerID t)]\<rparr>))
   \<and> sendAttack g p b TerraNullius =
          (if less_number
                (sub_number (round64 (troops p)) (reserveFloor g p (expandRatio b))) (Num 1)
           then g
           else g\<lparr>executions := executions g @
                  [AttackExecution
                     (sub_number (round64 (troops p)) (reserveFloor g p (expandRatio b)))
                     (playerID p) (terraNulliusID g)]\<rparr>)
   \<and> (round64 (troops p) = Num c
       \<and> greater_eq_number (reserveFloor g p (reserveRatio b)) (Num c) \<longrightarrow>
        sendAttack g p b (IsPlayer t) = g)
   \<and> (round64 (troops p) = Num c
       \<and> greater_eq_number (reserveFloor g p (expandRatio b)) (Num c) \<longrightarrow>
        sendAttack g p b TerraNullius = g)
   \<and> (\<not> isFriendly p t \<and> reserveFloor g p (reserveRatio b) = Num f
       \<and> round64 (troops p) = Num (f + 1) \<longrightarrow>
        sendAttack g p b (IsPlayer t) =
          g\<lparr>executions := executions g @ [AttackExecution (Num 1) (playerID p) (playerID t)]\<rparr>)
   \<and> (reserveFloor g p (expandRatio b) = Num f \<and> round64 (troops p) = Num (f + 1) \<longrightarrow>
        sendAttack g p b TerraNullius =
          g\<lparr>executions := executions g @ [AttackExecution (Num 1) (playerID p) (terraNulliusID g)]\<rparr>)"
proof (intro conjI impI)
  assume "isFriendly p t"
  then show "sendAttack g p b (IsPlayer t) = g"
    by (simp add: sendAttack_unfold)
next
  assume "\<not> isFriendly p t"
  then show "sendAttack g p b (IsPlayer t) =
          (if less_number
                (sub_number (round64 (troops p)) (reserveFloor g p (reserveRatio b))) (Num 1)
           then g
           else g\<lparr>executions := executions g @
                  [AttackExecution
                     (sub_number (round64 (troops p)) (reserveFloor g p (reserveRatio b)))
                     (playerID p) (playerID t)]\<rparr>)"
    by (simp add: sendAttack_unfold)
next
  show "sendAttack g p b TerraNullius =
          (if less_number
                (sub_number (round64 (troops p)) (reserveFloor g p (expandRatio b))) (Num 1)
           then g
           else g\<lparr>executions := executions g @
                  [AttackExecution
                     (sub_number (round64 (troops p)) (reserveFloor g p (expandRatio b)))
                     (playerID p) (terraNulliusID g)]\<rparr>)"
    by (simp add: sendAttack_unfold)
next
  assume "round64 (troops p) = Num c
       \<and> greater_eq_number (reserveFloor g p (reserveRatio b)) (Num c)"
  then show "sendAttack g p b (IsPlayer t) = g"
    by (simp add: sendAttack_unfold floor_covers_troops)
next
  assume "round64 (troops p) = Num c
       \<and> greater_eq_number (reserveFloor g p (expandRatio b)) (Num c)"
  then show "sendAttack g p b TerraNullius = g"
    by (simp add: sendAttack_unfold floor_covers_troops)
next
  assume "\<not> isFriendly p t \<and> reserveFloor g p (reserveRatio b) = Num f
       \<and> round64 (troops p) = Num (f + 1)"
  then show "sendAttack g p b (IsPlayer t) =
          g\<lparr>executions := executions g @ [AttackExecution (Num 1) (playerID p) (playerID t)]\<rparr>"
    by (simp add: sendAttack_unfold round64_1)
next
  assume "reserveFloor g p (expandRatio b) = Num f \<and> round64 (troops p) = Num (f + 1)"
  then show "sendAttack g p b TerraNullius =
          g\<lparr>executions := executions g @ [AttackExecution (Num 1) (playerID p) (terraNulliusID g)]\<rparr>"
    by (simp add: sendAttack_unfold round64_1)
qed

theorem sendAttack_binary64_witness:
  "sendAttack exGame (exOwner [] []) ((exBehavior [])\<lparr>reserveRatio := 11 / 20\<rparr>)
       (IsPlayer (exPlayer ''Fa'' Human 10 10)) = exGame
   \<and> sendAttack exGame (exOwner [] []) ((exBehavior [])\<lparr>reserveRatio := 11 / 20\<rparr>)
       (IsPlayer (exPlayer ''a'' Human 10 10))
       = exGame\<lparr>executions :=
           [AttackExecution (Num (3518437208883199 / 140737488355328)) ''me'' ''a'']\<rparr>
   \<and> sendAttack exGame (exOwner [] []) ((exBehavior [])\<lparr>reserveRatio := 11 / 20\<rparr>) TerraNullius
       = exGame\<lparr>executions := [AttackExecution (Num 70) ''me'' ''terra'']\<rparr>
   \<and> reserveFloor exGame (exOwner [] []\<lparr>troops := 55\<rparr>) (11 / 20)
       = Num (7740561859543041 / 140737488355328)
   \<and> sendAttack exGame (exOwner [] []\<lparr>troops := 55\<rparr>)
         ((exBehavior [])\<lparr>reserveRatio := 11 / 20\<rparr>) (IsPlayer (exPlayer ''a'' Human 10 10))
       = exGame
   \<and> sendAttack exGame (exOwner [] []\<lparr>troops := 10\<rparr>)
         ((exBehavior [])\<lparr>reserveRatio := 11 / 20\<rparr>) TerraNullius
       = exGame
   \<and> sendAttack exGame (exOwner [] []\<lparr>troops := 7881299347898369 / 140737488355328\<rparr>)
         ((exBehavior [])\<lparr>reserveRatio := 11 / 20\<rparr>) (IsPlayer (exPlayer ''a'' Human 10 10))
       = exGame\<lparr>executions := [AttackExecution (Num 1) ''me'' ''a'']\<rparr>
   \<and> sendAttack exGame (exOwner [] []\<lparr>troops := 11\<rparr>)
         ((exBehavior [])\<lparr>reserveRatio := 11 / 20\<rparr>) TerraNullius
       = exGame\<lparr>executions := [AttackExecution (Num 1) ''me'' ''terra'']\<rparr>"
proof -
  let ?b = "(exBehavior [])\<lparr>reserveRatio := 11 / 20\<rparr>"
  let ?a = "exPlayer ''a'' Human 10 10"
  have r: "reserveRatio ?b = 11 / 20" and x: "expandRatio ?b = 1 / 10"
    by (simp_all add: exBehavior_def)
  have fr: "isFriendly (exOwner [] []) (exPlayer ''Fa'' Human 10 10)"
    and nf: "\<not> isFriendly (exOwner [] []) ?a"
    by (simp_all add: exOwner_def exPlayer_def)
  have i: "playerID (exOwner [] []) = ''me''" "playerID ?a = ''a''"
    "terraNulliusID exGame = ''terra''" "executions exGame = []"
    by (simp_all add: exOwner_def exPlayer_def exGame_def)
  have o: "exOwner [] [] = exOwner [] []\<lparr>troops := 80\<rparr>"
    by (simp add: exOwner_def)
  have ge1: "greater_eq_number (Num (7740561859543041 / 140737488355328)) (Num 55)"
    and ge2: "greater_eq_number (Num 10) (Num 10)"
    by simp_all
  have p1: "(7740561859543041 / 140737488355328 :: rat) + 1 = 7881299347898369 / 140737488355328"
    and p2: "(10::rat) + 1 = 11"
    by simp_all
  note facts = r x nf i exFloor_55 exFloor_01 round64_80 round64_80_minus_floor round64_70
    round64_55 round64_10 round64_floor_plus_1 round64_11 ge1 ge2 p1 p2
  have c1: "sendAttack exGame (exOwner [] []) ?b (IsPlayer (exPlayer ''Fa'' Human 10 10)) = exGame"
    using sendAttack_binary64 [of "exOwner [] []" "exPlayer ''Fa'' Human 10 10" exGame ?b] fr
    by blast
  have c2: "sendAttack exGame (exOwner [] []\<lparr>troops := 80\<rparr>) ?b (IsPlayer ?a)
       = exGame\<lparr>executions :=
           [AttackExecution (Num (3518437208883199 / 140737488355328)) ''me'' ''a'']\<rparr>"
    and c3: "sendAttack exGame (exOwner [] []\<lparr>troops := 80\<rparr>) ?b TerraNullius
       = exGame\<lparr>executions := [AttackExecution (Num 70) ''me'' ''terra'']\<rparr>"
    using sendAttack_binary64 [of "exOwner [] []\<lparr>troops := 80\<rparr>" ?a exGame ?b]
    by (simp_all add: facts)
  have c4: "sendAttack exGame (exOwner [] []\<lparr>troops := 55\<rparr>) ?b (IsPlayer ?a) = exGame"
    using sendAttack_binary64 [of "exOwner [] []\<lparr>troops := 55\<rparr>" ?a exGame ?b 55,
        THEN conjunct2, THEN conjunct2, THEN conjunct2, THEN conjunct1]
    by (simp add: facts)
  have c5: "sendAttack exGame (exOwner [] []\<lparr>troops := 10\<rparr>) ?b TerraNullius = exGame"
    using sendAttack_binary64 [of "exOwner [] []\<lparr>troops := 10\<rparr>" ?a exGame ?b 10,
        THEN conjunct2, THEN conjunct2, THEN conjunct2, THEN conjunct2, THEN conjunct1]
    by (simp add: facts)
  have c6: "sendAttack exGame (exOwner [] []\<lparr>troops := 7881299347898369 / 140737488355328\<rparr>)
         ?b (IsPlayer ?a)
       = exGame\<lparr>executions := [AttackExecution (Num 1) ''me'' ''a'']\<rparr>"
    using sendAttack_binary64
      [of "exOwner [] []\<lparr>troops := 7881299347898369 / 140737488355328\<rparr>" ?a exGame ?b _
          "7740561859543041 / 140737488355328",
        THEN conjunct2, THEN conjunct2, THEN conjunct2, THEN conjunct2, THEN conjunct2, THEN conjunct1]
    by (simp add: facts)
  have c7: "sendAttack exGame (exOwner [] []\<lparr>troops := 11\<rparr>) ?b TerraNullius
       = exGame\<lparr>executions := [AttackExecution (Num 1) ''me'' ''terra'']\<rparr>"
    using sendAttack_binary64 [of "exOwner [] []\<lparr>troops := 11\<rparr>" ?a exGame ?b _ 10,
        THEN conjunct2, THEN conjunct2, THEN conjunct2, THEN conjunct2, THEN conjunct2, THEN conjunct2]
    by (simp add: facts)
  show ?thesis
    using c1 c2 c3 c4 c5 c6 c7 o exFloor_55 [of 55] by simp
qed

end
